theory Spec2Isabelle
  imports Main "HOL-Library.AList"
begin

section \<open>The NFT marketplace contract of \<^verbatim>\<open>src/project.py\<close>\<close>

text \<open>
  The contract is a SmartPy class \<^verbatim>\<open>NFTMarketplace\<close>. Every entrypoint is embedded as a
  function from the call context (\<^verbatim>\<open>sp.sender\<close>, \<^verbatim>\<open>sp.amount\<close>, \<^verbatim>\<open>sp.now\<close>) and the storage
  to either an error (the call aborts and the storage is left as it was) or the new
  storage together with the operations the call emits (\<^verbatim>\<open>sp.send\<close>, \<^verbatim>\<open>sp.emit\<close>). The host
  runs the emitted operations after it has committed the returned storage, so the
  returned storage is the one a recipient of a transfer observes.

  \<^verbatim>\<open>sp.nat\<close> is \<open>nat\<close>, \<^verbatim>\<open>sp.int\<close> and \<^verbatim>\<open>sp.timestamp\<close> are \<open>int\<close>, \<^verbatim>\<open>sp.address\<close> is a string.
  \<^verbatim>\<open>sp.mutez\<close> is \<open>nat\<close>; subtraction of mutez aborts when the result would be negative,
  which is written out in \<open>sub_mutez\<close>. The host's upper bound on mutez (all amounts
  come from attached payments, far below it) is not modelled.
\<close>

type_synonym address = string
type_synonym mutez = nat
type_synonym timestamp = int

record token =
  metadata :: string
  author :: address
  owner :: address
  price :: mutez
  for_sale :: bool
  royalty_percent :: nat
  created_at :: timestamp

record offer =
  amount :: mutez
  expires_at :: timestamp

text \<open>
  \<^verbatim>\<open>tokens\<close>, \<^verbatim>\<open>offers\<close> and \<^verbatim>\<open>pending_payments\<close> are big maps, only looked up and updated by
  key: partial functions. The inner map of \<^verbatim>\<open>offers\<close> (bidder to offer) is iterated by
  \<^verbatim>\<open>burn\<close>, so it is an association list, updated with \<open>AList.update\<close> and
  \<open>AList.delete\<close> and read with \<open>map_of\<close>.
\<close>

record storage =
  tokens :: "nat \<rightharpoonup> token"
  next_id :: nat
  offers :: "nat \<rightharpoonup> (address \<times> offer) list"
  pending_payments :: "address \<rightharpoonup> mutez"
  collected_fees :: mutez
  admin :: address
  pending_admin :: "address option"
  platform_fee_percent :: nat
  mint_price :: mutez
  min_sale_price :: mutez
  max_metadata_length :: nat
  max_supply :: nat
  paused :: bool

record call_ctx =
  sp_sender :: address
  sp_amount :: mutez
  sp_now :: timestamp

datatype error =
    Failwith string
  | Mutez_underflow
  | Division_by_zero
  | Missing_key

datatype val =
    V_nat nat
  | V_mutez mutez
  | V_address address
  | V_string string
  | V_timestamp timestamp
  | V_bool bool

datatype operation =
    Transfer_tokens address mutez
  | Emit string "(string \<times> val) list"

type_synonym result = "error + (storage \<times> operation list)"

definition burn_address :: address where
  "burn_address = ''tz1Ke2h7sDdakHJQh8WX4Z372du1KChsksyU''"

subsection \<open>Initial storage\<close>

definition init :: "address \<Rightarrow> nat \<Rightarrow> mutez \<Rightarrow> mutez \<Rightarrow> nat \<Rightarrow> nat \<Rightarrow> error + storage" where
  "init admin' platform_fee_percent' mint_price' min_sale_price' max_metadata_length' max_supply' =
     (if \<not> platform_fee_percent' \<le> 20 then Inl (Failwith ''INIT: Fee too high'')
      else if \<not> max_metadata_length' \<ge> 10 then Inl (Failwith ''INIT: Metadata length too small'')
      else Inr \<lparr>tokens = Map.empty, next_id = 0, offers = Map.empty,
                pending_payments = Map.empty, collected_fees = 0,
                admin = admin', pending_admin = None,
                platform_fee_percent = platform_fee_percent', mint_price = mint_price',
                min_sale_price = min_sale_price',
                max_metadata_length = max_metadata_length', max_supply = max_supply',
                paused = False\<rparr>)"

subsection \<open>Private functions and arithmetic on mutez\<close>

definition add_pending :: "address \<Rightarrow> mutez \<Rightarrow> storage \<Rightarrow> storage" where
  "add_pending recipient amount' s =
     (if amount' > 0 then
        (case pending_payments s recipient of
           Some old \<Rightarrow> s\<lparr>pending_payments := (pending_payments s)(recipient \<mapsto> old + amount')\<rparr>
         | None \<Rightarrow> s\<lparr>pending_payments := (pending_payments s)(recipient \<mapsto> amount')\<rparr>)
      else s)"

definition split_tokens :: "mutez \<Rightarrow> nat \<Rightarrow> nat \<Rightarrow> error + mutez" where
  "split_tokens m quantity total_quantity =
     (if total_quantity = 0 then Inl Division_by_zero
      else Inr (m * quantity div total_quantity))"

definition sub_mutez :: "mutez \<Rightarrow> mutez \<Rightarrow> error + mutez" where
  "sub_mutez a b = (if b \<le> a then Inr (a - b) else Inl Mutez_underflow)"

text \<open>
  The three lines under \<^verbatim>\<open># Calculer distribution\<close>, the same in \<^verbatim>\<open>buy\<close> (on the token's
  price) and in \<^verbatim>\<open>accept_offer\<close> (on the offer's amount): royalty, fee, seller amount.
\<close>

definition distribution :: "mutez \<Rightarrow> nat \<Rightarrow> nat \<Rightarrow> error + (mutez \<times> mutez \<times> mutez)" where
  "distribution p rp fp =
     (case split_tokens p rp 100 of
        Inl e \<Rightarrow> Inl e
      | Inr royalty \<Rightarrow>
     (case split_tokens p fp 100 of
        Inl e \<Rightarrow> Inl e
      | Inr fee \<Rightarrow>
     (case sub_mutez p royalty of
        Inl e \<Rightarrow> Inl e
      | Inr rest \<Rightarrow>
     (case sub_mutez rest fee of
        Inl e \<Rightarrow> Inl e
      | Inr seller_amount \<Rightarrow> Inr (royalty, fee, seller_amount)))))"

text \<open>
  The credits after \<^verbatim>\<open># Distribuer\<close>, the same in \<^verbatim>\<open>buy\<close> and \<^verbatim>\<open>accept_offer\<close>: the fee goes to
  \<^verbatim>\<open>collected_fees\<close>, royalty and seller amount to the pending payments, as one credit
  when the author is the seller.
\<close>

definition distribute :: "address \<Rightarrow> address \<Rightarrow> mutez \<Rightarrow> mutez \<Rightarrow> mutez \<Rightarrow> storage \<Rightarrow> storage" where
  "distribute author_addr seller_addr royalty fee seller_amount s =
     (let s1 = s\<lparr>collected_fees := collected_fees s + fee\<rparr>
      in if author_addr \<noteq> seller_addr
         then add_pending seller_addr seller_amount (add_pending author_addr royalty s1)
         else add_pending seller_addr (seller_amount + royalty) s1)"

subsection \<open>Minting\<close>

definition mint :: "call_ctx \<Rightarrow> string \<Rightarrow> nat \<Rightarrow> storage \<Rightarrow> result" where
  "mint c metadata' royalty_percent' s =
     (if paused s then Inl (Failwith ''MINT: Contract paused'')
      else if sp_amount c \<noteq> mint_price s then Inl (Failwith ''MINT: Invalid amount'')
      else if \<not> length metadata' > 0 then Inl (Failwith ''MINT: Empty metadata'')
      else if \<not> length metadata' \<le> max_metadata_length s
        then Inl (Failwith ''MINT: Metadata too long'')
      else if \<not> royalty_percent' \<le> 50 then Inl (Failwith ''MINT: Royalty too high'')
      else if max_supply s > 0 \<and> \<not> next_id s < max_supply s
        then Inl (Failwith ''MINT: Max supply reached'')
      else
        let token_id = next_id s
        in Inr (s\<lparr>tokens := (tokens s)(token_id \<mapsto>
                      \<lparr>metadata = metadata', author = sp_sender c, owner = sp_sender c,
                       price = 0, for_sale = False, royalty_percent = royalty_percent',
                       created_at = sp_now c\<rparr>),
                   next_id := next_id s + 1,
                   collected_fees := collected_fees s + sp_amount c\<rparr>,
                [Emit ''Mint'' [(''token_id'', V_nat token_id),
                                (''author'', V_address (sp_sender c)),
                                (''metadata'', V_string metadata'),
                                (''royalty'', V_nat royalty_percent')]]))"

subsection \<open>Listing\<close>

definition list_for_sale :: "call_ctx \<Rightarrow> nat \<Rightarrow> mutez \<Rightarrow> storage \<Rightarrow> result" where
  "list_for_sale c token_id price' s =
     (if paused s then Inl (Failwith ''LIST: Contract paused'')
      else if sp_amount c \<noteq> 0 then Inl (Failwith ''LIST: No tez expected'')
      else case tokens s token_id of
        None \<Rightarrow> Inl (Failwith ''LIST: Token not found'')
      | Some token \<Rightarrow>
          if \<not> price' \<ge> min_sale_price s then Inl (Failwith ''LIST: Price below minimum'')
          else if owner token \<noteq> sp_sender c then Inl (Failwith ''LIST: Not owner'')
          else if for_sale token then Inl (Failwith ''LIST: Already listed'')
          else Inr (s\<lparr>tokens := (tokens s)(token_id \<mapsto> token\<lparr>price := price', for_sale := True\<rparr>)\<rparr>,
                    [Emit ''Listed'' [(''token_id'', V_nat token_id),
                                      (''seller'', V_address (sp_sender c)),
                                      (''price'', V_mutez price')]]))"

definition update_price :: "call_ctx \<Rightarrow> nat \<Rightarrow> mutez \<Rightarrow> storage \<Rightarrow> result" where
  "update_price c token_id new_price s =
     (if paused s then Inl (Failwith ''UPDATE: Contract paused'')
      else if sp_amount c \<noteq> 0 then Inl (Failwith ''UPDATE: No tez expected'')
      else case tokens s token_id of
        None \<Rightarrow> Inl (Failwith ''UPDATE: Token not found'')
      | Some token \<Rightarrow>
          if \<not> new_price \<ge> min_sale_price s then Inl (Failwith ''UPDATE: Price below minimum'')
          else if owner token \<noteq> sp_sender c then Inl (Failwith ''UPDATE: Not owner'')
          else if \<not> for_sale token then Inl (Failwith ''UPDATE: Not listed'')
          else
            let old_price = price token
            in Inr (s\<lparr>tokens := (tokens s)(token_id \<mapsto> token\<lparr>price := new_price\<rparr>)\<rparr>,
                    [Emit ''PriceUpdated'' [(''token_id'', V_nat token_id),
                                            (''old_price'', V_mutez old_price),
                                            (''new_price'', V_mutez new_price)]]))"

definition cancel_sale :: "call_ctx \<Rightarrow> nat \<Rightarrow> storage \<Rightarrow> result" where
  "cancel_sale c token_id s =
     (if sp_amount c \<noteq> 0 then Inl (Failwith ''CANCEL: No tez expected'')
      else case tokens s token_id of
        None \<Rightarrow> Inl (Failwith ''CANCEL: Token not found'')
      | Some token \<Rightarrow>
          if owner token \<noteq> sp_sender c then Inl (Failwith ''CANCEL: Not owner'')
          else if \<not> for_sale token then Inl (Failwith ''CANCEL: Not listed'')
          else Inr (s\<lparr>tokens := (tokens s)(token_id \<mapsto> token\<lparr>for_sale := False, price := 0\<rparr>)\<rparr>,
                    [Emit ''Cancelled'' [(''token_id'', V_nat token_id),
                                         (''seller'', V_address (sp_sender c))]]))"

subsection \<open>Purchase\<close>

definition buy :: "call_ctx \<Rightarrow> nat \<Rightarrow> storage \<Rightarrow> result" where
  "buy c token_id s =
     (if paused s then Inl (Failwith ''BUY: Contract paused'')
      else case tokens s token_id of
        None \<Rightarrow> Inl (Failwith ''BUY: Token not found'')
      | Some token \<Rightarrow>
          if \<not> for_sale token then Inl (Failwith ''BUY: Not for sale'')
          else if \<not> sp_sender c \<noteq> owner token then Inl (Failwith ''BUY: Cannot buy own token'')
          else if sp_amount c \<noteq> price token then Inl (Failwith ''BUY: Wrong amount'')
          else case distribution (price token) (royalty_percent token) (platform_fee_percent s) of
            Inl e \<Rightarrow> Inl e
          | Inr (royalty, fee, seller_amount) \<Rightarrow>
              let author_addr = author token;
                  seller_addr = owner token;
                  sale_price = price token;
                  s1 = s\<lparr>tokens := (tokens s)(token_id \<mapsto>
                           token\<lparr>owner := sp_sender c, for_sale := False, price := 0\<rparr>)\<rparr>
              in Inr (distribute author_addr seller_addr royalty fee seller_amount s1,
                      [Emit ''Sale'' [(''token_id'', V_nat token_id),
                                      (''seller'', V_address seller_addr),
                                      (''buyer'', V_address (sp_sender c)),
                                      (''price'', V_mutez sale_price),
                                      (''royalty'', V_mutez royalty),
                                      (''fee'', V_mutez fee)]]))"

subsection \<open>Offers\<close>

definition make_offer :: "call_ctx \<Rightarrow> nat \<Rightarrow> int \<Rightarrow> storage \<Rightarrow> result" where
  "make_offer c token_id duration_seconds s =
     (if paused s then Inl (Failwith ''OFFER: Contract paused'')
      else case tokens s token_id of
        None \<Rightarrow> Inl (Failwith ''OFFER: Token not found'')
      | Some token \<Rightarrow>
          if \<not> duration_seconds > 0 then Inl (Failwith ''OFFER: Invalid duration'')
          else if \<not> sp_amount c \<ge> min_sale_price s then Inl (Failwith ''OFFER: Amount too low'')
          else if \<not> sp_sender c \<noteq> owner token
            then Inl (Failwith ''OFFER: Cannot offer on own token'')
          else
            let new_offer = \<lparr>amount = sp_amount c, expires_at = sp_now c + duration_seconds\<rparr>;
                s' = (case offers s token_id of
                        Some token_offers \<Rightarrow>
                          let s1 = (case map_of token_offers (sp_sender c) of
                                      Some old_offer \<Rightarrow> add_pending (sp_sender c) (amount old_offer) s
                                    | None \<Rightarrow> s)
                          in s1\<lparr>offers := (offers s1)(token_id \<mapsto>
                                   AList.update (sp_sender c) new_offer token_offers)\<rparr>
                      | None \<Rightarrow>
                          s\<lparr>offers := (offers s)(token_id \<mapsto>
                                 AList.update (sp_sender c) new_offer [])\<rparr>)
            in Inr (s', [Emit ''OfferMade'' [(''token_id'', V_nat token_id),
                                             (''buyer'', V_address (sp_sender c)),
                                             (''amount'', V_mutez (sp_amount c)),
                                             (''expires_at'', V_timestamp (expires_at new_offer))]]))"

definition cancel_offer :: "call_ctx \<Rightarrow> nat \<Rightarrow> storage \<Rightarrow> result" where
  "cancel_offer c token_id s =
     (if sp_amount c \<noteq> 0 then Inl (Failwith ''CANCEL_OFFER: No tez expected'')
      else case offers s token_id of
        None \<Rightarrow> Inl (Failwith ''CANCEL_OFFER: No offers on token'')
      | Some token_offers \<Rightarrow>
          (case map_of token_offers (sp_sender c) of
             None \<Rightarrow> Inl (Failwith ''CANCEL_OFFER: No offer from you'')
           | Some offer' \<Rightarrow>
               let s1 = s\<lparr>offers := (offers s)(token_id \<mapsto> AList.delete (sp_sender c) token_offers)\<rparr>
               in Inr (add_pending (sp_sender c) (amount offer') s1,
                       [Emit ''OfferCancelled'' [(''token_id'', V_nat token_id),
                                                 (''buyer'', V_address (sp_sender c)),
                                                 (''refunded'', V_mutez (amount offer'))]])))"

definition accept_offer :: "call_ctx \<Rightarrow> nat \<Rightarrow> address \<Rightarrow> storage \<Rightarrow> result" where
  "accept_offer c token_id buyer s =
     (if paused s then Inl (Failwith ''ACCEPT: Contract paused'')
      else if sp_amount c \<noteq> 0 then Inl (Failwith ''ACCEPT: No tez expected'')
      else case tokens s token_id of
        None \<Rightarrow> Inl (Failwith ''ACCEPT: Token not found'')
      | Some token \<Rightarrow>
     (case offers s token_id of
        None \<Rightarrow> Inl (Failwith ''ACCEPT: No offers'')
      | Some token_offers \<Rightarrow>
          if owner token \<noteq> sp_sender c then Inl (Failwith ''ACCEPT: Not owner'')
          else case map_of token_offers buyer of
            None \<Rightarrow> Inl (Failwith ''ACCEPT: Offer not found'')
          | Some offer' \<Rightarrow>
              if \<not> sp_now c < expires_at offer' then Inl (Failwith ''ACCEPT: Offer expired'')
              else case distribution (amount offer') (royalty_percent token) (platform_fee_percent s) of
                Inl e \<Rightarrow> Inl e
              | Inr (royalty, fee, seller_amount) \<Rightarrow>
                  let author_addr = author token;
                      seller_addr = owner token;
                      s1 = s\<lparr>tokens := (tokens s)(token_id \<mapsto>
                               token\<lparr>owner := buyer, for_sale := False, price := 0\<rparr>)\<rparr>;
                      s2 = s1\<lparr>offers := (offers s1)(token_id \<mapsto> AList.delete buyer token_offers)\<rparr>
                  in Inr (distribute author_addr seller_addr royalty fee seller_amount s2,
                          [Emit ''OfferAccepted'' [(''token_id'', V_nat token_id),
                                                   (''seller'', V_address seller_addr),
                                                   (''buyer'', V_address buyer),
                                                   (''price'', V_mutez (amount offer'))]])))"

subsection \<open>Transfer and burn\<close>

definition transfer :: "call_ctx \<Rightarrow> nat \<Rightarrow> address \<Rightarrow> storage \<Rightarrow> result" where
  "transfer c token_id to' s =
     (if paused s then Inl (Failwith ''TRANSFER: Contract paused'')
      else if sp_amount c \<noteq> 0 then Inl (Failwith ''TRANSFER: No tez expected'')
      else case tokens s token_id of
        None \<Rightarrow> Inl (Failwith ''TRANSFER: Token not found'')
      | Some token \<Rightarrow>
          if \<not> to' \<noteq> burn_address then Inl (Failwith ''TRANSFER: Cannot send to burn address'')
          else if \<not> to' \<noteq> sp_sender c then Inl (Failwith ''TRANSFER: Cannot transfer to self'')
          else if owner token \<noteq> sp_sender c then Inl (Failwith ''TRANSFER: Not owner'')
          else if for_sale token then Inl (Failwith ''TRANSFER: Token is listed'')
          else
            let old_owner = owner token
            in Inr (s\<lparr>tokens := (tokens s)(token_id \<mapsto> token\<lparr>owner := to'\<rparr>)\<rparr>,
                    [Emit ''Transfer'' [(''token_id'', V_nat token_id),
                                        (''from_'', V_address old_owner),
                                        (''to_'', V_address to')]]))"

text \<open>
  The loop of \<^verbatim>\<open>burn\<close> over \<^verbatim>\<open>token_offers.keys()\<close>: each key is looked up in the map and
  its offer's amount is credited to the key.
\<close>

fun refund_offers :: "(address \<times> offer) list \<Rightarrow> address list \<Rightarrow> storage \<Rightarrow> error + storage" where
  "refund_offers token_offers [] s = Inr s"
| "refund_offers token_offers (buyer_addr # rest) s =
     (case map_of token_offers buyer_addr of
        None \<Rightarrow> Inl Missing_key
      | Some offer' \<Rightarrow>
          refund_offers token_offers rest (add_pending buyer_addr (amount offer') s))"

definition burn :: "call_ctx \<Rightarrow> nat \<Rightarrow> storage \<Rightarrow> result" where
  "burn c token_id s =
     (if sp_amount c \<noteq> 0 then Inl (Failwith ''BURN: No tez expected'')
      else case tokens s token_id of
        None \<Rightarrow> Inl (Failwith ''BURN: Token not found'')
      | Some token \<Rightarrow>
          if owner token \<noteq> sp_sender c then Inl (Failwith ''BURN: Not owner'')
          else if for_sale token then Inl (Failwith ''BURN: Token is listed'')
          else
            let s1 = s\<lparr>tokens := (tokens s)(token_id := None)\<rparr>;
                ops = [Emit ''Burn'' [(''token_id'', V_nat token_id),
                                      (''owner'', V_address (sp_sender c))]]
            in case offers s1 token_id of
                 None \<Rightarrow> Inr (s1, ops)
               | Some token_offers \<Rightarrow>
                   (case refund_offers token_offers (map fst token_offers) s1 of
                      Inl e \<Rightarrow> Inl e
                    | Inr s2 \<Rightarrow> Inr (s2\<lparr>offers := (offers s2)(token_id := None)\<rparr>, ops)))"

subsection \<open>Withdrawals\<close>

definition withdraw :: "call_ctx \<Rightarrow> storage \<Rightarrow> result" where
  "withdraw c s =
     (if sp_amount c \<noteq> 0 then Inl (Failwith ''WITHDRAW: No tez expected'')
      else case pending_payments s (sp_sender c) of
        None \<Rightarrow> Inl (Failwith ''WITHDRAW: Nothing pending'')
      | Some amount' \<Rightarrow>
          if \<not> amount' > 0 then Inl (Failwith ''WITHDRAW: Zero amount'')
          else
            let s1 = s\<lparr>pending_payments := (pending_payments s)(sp_sender c := None)\<rparr>
            in Inr (s1, [Transfer_tokens (sp_sender c) amount',
                         Emit ''Withdrawal'' [(''recipient'', V_address (sp_sender c)),
                                              (''amount'', V_mutez amount')]]))"

definition withdraw_fees :: "call_ctx \<Rightarrow> storage \<Rightarrow> result" where
  "withdraw_fees c s =
     (if sp_amount c \<noteq> 0 then Inl (Failwith ''FEES: No tez expected'')
      else if sp_sender c \<noteq> admin s then Inl (Failwith ''FEES: Not admin'')
      else if \<not> collected_fees s > 0 then Inl (Failwith ''FEES: Nothing to withdraw'')
      else
        let amount' = collected_fees s;
            s1 = s\<lparr>collected_fees := 0\<rparr>
        in Inr (s1, [Transfer_tokens (admin s1) amount',
                     Emit ''FeesWithdrawn'' [(''admin'', V_address (admin s1)),
                                             (''amount'', V_mutez amount')]]))"

subsection \<open>Administration\<close>

definition set_pause :: "call_ctx \<Rightarrow> bool \<Rightarrow> storage \<Rightarrow> result" where
  "set_pause c paused' s =
     (if sp_amount c \<noteq> 0 then Inl (Failwith ''PAUSE: No tez expected'')
      else if sp_sender c \<noteq> admin s then Inl (Failwith ''PAUSE: Not admin'')
      else Inr (s\<lparr>paused := paused'\<rparr>, [Emit ''PauseChanged'' [(''paused'', V_bool paused')]]))"

definition propose_admin :: "call_ctx \<Rightarrow> address \<Rightarrow> storage \<Rightarrow> result" where
  "propose_admin c new_admin s =
     (if sp_amount c \<noteq> 0 then Inl (Failwith ''ADMIN: No tez expected'')
      else if sp_sender c \<noteq> admin s then Inl (Failwith ''ADMIN: Not admin'')
      else if \<not> new_admin \<noteq> admin s then Inl (Failwith ''ADMIN: Same admin'')
      else Inr (s\<lparr>pending_admin := Some new_admin\<rparr>,
                [Emit ''AdminProposed'' [(''proposed'', V_address new_admin)]]))"

definition accept_admin :: "call_ctx \<Rightarrow> storage \<Rightarrow> result" where
  "accept_admin c s =
     (if sp_amount c \<noteq> 0 then Inl (Failwith ''ADMIN: No tez expected'')
      else case pending_admin s of
        None \<Rightarrow> Inl (Failwith ''ADMIN: No pending'')
      | Some pending \<Rightarrow>
          if sp_sender c \<noteq> pending then Inl (Failwith ''ADMIN: Not proposed admin'')
          else
            let old_admin = admin s
            in Inr (s\<lparr>admin := pending, pending_admin := None\<rparr>,
                    [Emit ''AdminChanged'' [(''old_admin'', V_address old_admin),
                                            (''new_admin'', V_address pending)]]))"

definition cancel_admin_change :: "call_ctx \<Rightarrow> storage \<Rightarrow> result" where
  "cancel_admin_change c s =
     (if sp_amount c \<noteq> 0 then Inl (Failwith ''ADMIN: No tez expected'')
      else if sp_sender c \<noteq> admin s then Inl (Failwith ''ADMIN: Not admin'')
      else Inr (s\<lparr>pending_admin := None\<rparr>,
                [Emit ''AdminChangeCancelled'' [(''cancelled'', V_bool True)]]))"

definition update_platform_fee :: "call_ctx \<Rightarrow> nat \<Rightarrow> storage \<Rightarrow> result" where
  "update_platform_fee c new_fee s =
     (if sp_amount c \<noteq> 0 then Inl (Failwith ''FEE: No tez expected'')
      else if sp_sender c \<noteq> admin s then Inl (Failwith ''FEE: Not admin'')
      else if \<not> new_fee \<le> 20 then Inl (Failwith ''FEE: Too high'')
      else Inr (s\<lparr>platform_fee_percent := new_fee\<rparr>,
                [Emit ''FeeUpdated'' [(''new_fee'', V_nat new_fee)]]))"

definition update_mint_price :: "call_ctx \<Rightarrow> mutez \<Rightarrow> storage \<Rightarrow> result" where
  "update_mint_price c new_price s =
     (if sp_amount c \<noteq> 0 then Inl (Failwith ''PRICE: No tez expected'')
      else if sp_sender c \<noteq> admin s then Inl (Failwith ''PRICE: Not admin'')
      else Inr (s\<lparr>mint_price := new_price\<rparr>,
                [Emit ''MintPriceUpdated'' [(''new_price'', V_mutez new_price)]]))"

definition update_min_sale_price :: "call_ctx \<Rightarrow> mutez \<Rightarrow> storage \<Rightarrow> result" where
  "update_min_sale_price c new_price s =
     (if sp_amount c \<noteq> 0 then Inl (Failwith ''PRICE: No tez expected'')
      else if sp_sender c \<noteq> admin s then Inl (Failwith ''PRICE: Not admin'')
      else Inr (s\<lparr>min_sale_price := new_price\<rparr>,
                [Emit ''MinSalePriceUpdated'' [(''new_price'', V_mutez new_price)]]))"

subsection \<open>Views\<close>

definition get_pending :: "storage \<Rightarrow> address \<Rightarrow> mutez" where
  "get_pending s addr = (case pending_payments s addr of Some v \<Rightarrow> v | None \<Rightarrow> 0)"

subsection \<open>Calls and reachable storages\<close>

datatype call =
    Mint string nat
  | List_for_sale nat mutez
  | Update_price nat mutez
  | Cancel_sale nat
  | Buy nat
  | Make_offer nat int
  | Cancel_offer nat
  | Accept_offer nat address
  | Transfer nat address
  | Burn nat
  | Withdraw
  | Withdraw_fees
  | Set_pause bool
  | Propose_admin address
  | Accept_admin
  | Cancel_admin_change
  | Update_platform_fee nat
  | Update_mint_price mutez
  | Update_min_sale_price mutez

fun exec :: "call_ctx \<Rightarrow> call \<Rightarrow> storage \<Rightarrow> result" where
  "exec c (Mint md rp) s = mint c md rp s"
| "exec c (List_for_sale token_id p) s = list_for_sale c token_id p s"
| "exec c (Update_price token_id p) s = update_price c token_id p s"
| "exec c (Cancel_sale token_id) s = cancel_sale c token_id s"
| "exec c (Buy token_id) s = buy c token_id s"
| "exec c (Make_offer token_id d) s = make_offer c token_id d s"
| "exec c (Cancel_offer token_id) s = cancel_offer c token_id s"
| "exec c (Accept_offer token_id buyer) s = accept_offer c token_id buyer s"
| "exec c (Transfer token_id to') s = transfer c token_id to' s"
| "exec c (Burn token_id) s = burn c token_id s"
| "exec c Withdraw s = withdraw c s"
| "exec c Withdraw_fees s = withdraw_fees c s"
| "exec c (Set_pause b) s = set_pause c b s"
| "exec c (Propose_admin a) s = propose_admin c a s"
| "exec c Accept_admin s = accept_admin c s"
| "exec c Cancel_admin_change s = cancel_admin_change c s"
| "exec c (Update_platform_fee n) s = update_platform_fee c n s"
| "exec c (Update_mint_price p) s = update_mint_price c p s"
| "exec c (Update_min_sale_price p) s = update_min_sale_price c p s"

text \<open>
  \<open>reach P s\<close>: the storage \<open>s\<close> is reached from an initial storage by successful calls,
  each of which satisfies \<open>P\<close> in the storage it is made in. \<open>reachable\<close> allows every call.
\<close>

inductive reach :: "(call_ctx \<Rightarrow> call \<Rightarrow> storage \<Rightarrow> bool) \<Rightarrow> storage \<Rightarrow> bool"
  for P :: "call_ctx \<Rightarrow> call \<Rightarrow> storage \<Rightarrow> bool" where
  reach_init: "init a fp mp msp mml ms = Inr s \<Longrightarrow> reach P s"
| reach_step: "reach P s \<Longrightarrow> P c cl s \<Longrightarrow> exec c cl s = Inr (s', ops) \<Longrightarrow> reach P s'"

definition reachable :: "storage \<Rightarrow> bool" where
  "reachable s = reach (\<lambda>c cl s. True) s"

text \<open>Running a list of calls, each checked against \<open>P\<close>; \<open>None\<close> when one of them aborts.\<close>

fun run :: "(call_ctx \<Rightarrow> call \<Rightarrow> storage \<Rightarrow> bool) \<Rightarrow> (call_ctx \<times> call) list \<Rightarrow> storage \<Rightarrow> storage option" where
  "run P [] s = Some s"
| "run P ((c, cl) # rest) s =
     (if P c cl s then
        (case exec c cl s of Inl e \<Rightarrow> None | Inr (s', ops) \<Rightarrow> run P rest s')
      else None)"

subsection \<open>Invariants of the storage\<close>

text \<open>
  The bounds on the percentages, the positivity of the pending payments, and the
  representation invariant of the inner offer maps (a key occurs once).
\<close>

definition bounds_inv :: "storage \<Rightarrow> bool" where
  "bounds_inv s \<longleftrightarrow>
     platform_fee_percent s \<le> 20 \<and> (\<forall>tid t. tokens s tid = Some t \<longrightarrow> royalty_percent t \<le> 50)"

definition pending_inv :: "storage \<Rightarrow> bool" where
  "pending_inv s \<longleftrightarrow> (\<forall>a v. pending_payments s a = Some v \<longrightarrow> 0 < v)"

definition offers_inv :: "storage \<Rightarrow> bool" where
  "offers_inv s \<longleftrightarrow> (\<forall>tid tos. offers s tid = Some tos \<longrightarrow> distinct (map fst tos))"

text \<open>Every listed token is priced at or above the current floor.\<close>

definition listing_inv :: "storage \<Rightarrow> bool" where
  "listing_inv s \<longleftrightarrow>
     (\<forall>tid t. tokens s tid = Some t \<longrightarrow> for_sale t \<longrightarrow> min_sale_price s \<le> price t)"

text \<open>No token is owned or authored by the burn address, and no offer is made by it.\<close>

definition burn_free :: "storage \<Rightarrow> bool" where
  "burn_free s \<longleftrightarrow>
     (\<forall>tid t. tokens s tid = Some t \<longrightarrow> owner t \<noteq> burn_address \<and> author t \<noteq> burn_address) \<and>
     (\<forall>tid tos. offers s tid = Some tos \<longrightarrow> map_of tos burn_address = None)"

text \<open>Restrictions on calls, for \<open>reach\<close>.\<close>

fun floor_below_listings :: "call_ctx \<Rightarrow> call \<Rightarrow> storage \<Rightarrow> bool" where
  "floor_below_listings c (Update_min_sale_price p) s =
     (\<forall>tid t. tokens s tid = Some t \<longrightarrow> for_sale t \<longrightarrow> p \<le> price t)"
| "floor_below_listings c cl s = True"


text \<open>
  A run of the contract: Alice mints token 0 with a royalty of 10 percent and lists
  it for 100, Bob buys it. The fee is 5 percent, so Alice is owed 95.
\<close>

definition initial_storage :: storage where
  "initial_storage =
     \<lparr>tokens = Map.empty, next_id = 0, offers = Map.empty,
      pending_payments = Map.empty, collected_fees = 0,
      admin = ''admin'', pending_admin = None,
      platform_fee_percent = 5, mint_price = 1, min_sale_price = 1,
      max_metadata_length = 256, max_supply = 0, paused = False\<rparr>"

definition alice_token :: token where
  "alice_token =
     \<lparr>metadata = ''ipfs://Qm1'', author = ''alice'', owner = ''alice'',
      price = 0, for_sale = False, royalty_percent = 10, created_at = 0\<rparr>"

definition mint_call :: "call_ctx \<times> call" where
  "mint_call = (\<lparr>sp_sender = ''alice'', sp_amount = 1, sp_now = 0\<rparr>, Mint ''ipfs://Qm1'' 10)"

definition after_mint :: storage where
  "after_mint = initial_storage\<lparr>tokens := [0 \<mapsto> alice_token], next_id := 1, collected_fees := 1\<rparr>"

definition list_call :: "call_ctx \<times> call" where
  "list_call = (\<lparr>sp_sender = ''alice'', sp_amount = 0, sp_now = 0\<rparr>, List_for_sale 0 100)"

definition after_list :: storage where
  "after_list = after_mint\<lparr>tokens := [0 \<mapsto> alice_token\<lparr>price := 100, for_sale := True\<rparr>]\<rparr>"

definition buy_call :: "call_ctx \<times> call" where
  "buy_call = (\<lparr>sp_sender = ''bob'', sp_amount = 100, sp_now = 0\<rparr>, Buy 0)"

definition after_sale :: storage where
  "after_sale = after_mint\<lparr>tokens := [0 \<mapsto> alice_token\<lparr>owner := ''bob''\<rparr>],
                           pending_payments := [''alice'' \<mapsto> 95], collected_fees := 6\<rparr>"

text \<open>
  Runs with offers: after Alice's mint, Bob offers 50 on token 0 and Charlie 60; the
  admin then pauses the contract, or raises the price floor to 200 after Bob's offer.
\<close>

definition bob_offer_call :: "call_ctx \<times> call" where
  "bob_offer_call = (\<lparr>sp_sender = ''bob'', sp_amount = 50, sp_now = 0\<rparr>, Make_offer 0 86400)"

definition after_offer :: storage where
  "after_offer = after_mint\<lparr>offers := [0 \<mapsto> [(''bob'', \<lparr>amount = 50, expires_at = 86400\<rparr>)]]\<rparr>"

definition charlie_offer_call :: "call_ctx \<times> call" where
  "charlie_offer_call =
     (\<lparr>sp_sender = ''charlie'', sp_amount = 60, sp_now = 0\<rparr>, Make_offer 0 86400)"

definition after_offers :: storage where
  "after_offers =
     after_mint\<lparr>offers := [0 \<mapsto> [(''bob'', \<lparr>amount = 50, expires_at = 86400\<rparr>),
                                   (''charlie'', \<lparr>amount = 60, expires_at = 86400\<rparr>)]]\<rparr>"

definition pause_call :: "call_ctx \<times> call" where
  "pause_call = (\<lparr>sp_sender = ''admin'', sp_amount = 0, sp_now = 0\<rparr>, Set_pause True)"

definition after_pause :: storage where
  "after_pause = after_offers\<lparr>paused := True\<rparr>"

definition raise_floor_call :: "call_ctx \<times> call" where
  "raise_floor_call =
     (\<lparr>sp_sender = ''admin'', sp_amount = 0, sp_now = 0\<rparr>, Update_min_sale_price 200)"

definition after_raise :: storage where
  "after_raise = after_offer\<lparr>min_sale_price := 200\<rparr>"

text \<open>
  Runs of the administration: the admin proposes Bob; after Alice has listed token 0 for
  100 the admin raises the price floor to 50, or to 200. And a mint called by
  the burn address.
\<close>

definition propose_call :: "call_ctx \<times> call" where
  "propose_call = (\<lparr>sp_sender = ''admin'', sp_amount = 0, sp_now = 0\<rparr>, Propose_admin ''bob'')"

definition after_propose :: storage where
  "after_propose = initial_storage\<lparr>pending_admin := Some ''bob''\<rparr>"

definition harmless_raise_call :: "call_ctx \<times> call" where
  "harmless_raise_call =
     (\<lparr>sp_sender = ''admin'', sp_amount = 0, sp_now = 0\<rparr>, Update_min_sale_price 50)"

definition after_harmless_raise :: storage where
  "after_harmless_raise = after_list\<lparr>min_sale_price := 50\<rparr>"

definition listed_below_floor :: storage where
  "listed_below_floor = after_list\<lparr>min_sale_price := 200\<rparr>"



text \<open>
  A resale: Bob mints token 0 with a royalty of 20 percent and transfers it to Charlie,
  who lists it for 50; Alice buys it. The royalty of 10 goes to Bob, the fee is 2, and
  Charlie is owed 38.
\<close>

definition bob_token :: token where
  "bob_token =
     \<lparr>metadata = ''ipfs://Qm2'', author = ''bob'', owner = ''bob'',
      price = 0, for_sale = False, royalty_percent = 20, created_at = 0\<rparr>"

definition resale_calls :: "(call_ctx \<times> call) list" where
  "resale_calls =
     [(\<lparr>sp_sender = ''bob'', sp_amount = 1, sp_now = 0\<rparr>, Mint ''ipfs://Qm2'' 20),
      (\<lparr>sp_sender = ''bob'', sp_amount = 0, sp_now = 0\<rparr>, Transfer 0 ''charlie''),
      (\<lparr>sp_sender = ''charlie'', sp_amount = 0, sp_now = 0\<rparr>, List_for_sale 0 50)]"

definition resale_listed :: storage where
  "resale_listed =
     initial_storage\<lparr>tokens := [0 \<mapsto> bob_token\<lparr>owner := ''charlie'', price := 50, for_sale := True\<rparr>],
                      next_id := 1, collected_fees := 1\<rparr>"

definition after_resale :: storage where
  "after_resale =
     resale_listed\<lparr>tokens := [0 \<mapsto> bob_token\<lparr>owner := ''alice''\<rparr>],
                    pending_payments := [''bob'' \<mapsto> 10, ''charlie'' \<mapsto> 38],
                    collected_fees := 3\<rparr>"

section \<open>Properties\<close>

subsection \<open>Credits and the split\<close>

lemma add_pending_fields [simp]:
  "tokens (add_pending r a s) = tokens s"
  "next_id (add_pending r a s) = next_id s"
  "offers (add_pending r a s) = offers s"
  "collected_fees (add_pending r a s) = collected_fees s"
  "admin (add_pending r a s) = admin s"
  "pending_admin (add_pending r a s) = pending_admin s"
  "platform_fee_percent (add_pending r a s) = platform_fee_percent s"
  "mint_price (add_pending r a s) = mint_price s"
  "min_sale_price (add_pending r a s) = min_sale_price s"
  "max_metadata_length (add_pending r a s) = max_metadata_length s"
  "max_supply (add_pending r a s) = max_supply s"
  "paused (add_pending r a s) = paused s"
  by (simp_all add: add_pending_def split: option.splits)

lemma get_pending_add_pending:
  "get_pending (add_pending r a s) x = (if x = r then get_pending s x + a else get_pending s x)"
  by (simp add: get_pending_def add_pending_def split: option.splits)

lemma distribute_fields [simp]:
  "tokens (distribute au se r f sa s) = tokens s"
  "next_id (distribute au se r f sa s) = next_id s"
  "offers (distribute au se r f sa s) = offers s"
  "collected_fees (distribute au se r f sa s) = collected_fees s + f"
  "admin (distribute au se r f sa s) = admin s"
  "pending_admin (distribute au se r f sa s) = pending_admin s"
  "platform_fee_percent (distribute au se r f sa s) = platform_fee_percent s"
  "mint_price (distribute au se r f sa s) = mint_price s"
  "min_sale_price (distribute au se r f sa s) = min_sale_price s"
  "max_metadata_length (distribute au se r f sa s) = max_metadata_length s"
  "max_supply (distribute au se r f sa s) = max_supply s"
  "paused (distribute au se r f sa s) = paused s"
  by (simp_all add: distribute_def Let_def)

lemma split_sum_le:
  fixes p :: nat
  assumes "rp \<le> 50" "fp \<le> 20"
  shows "p * rp div 100 + p * fp div 100 \<le> p"
proof -
  have "p * rp div 100 \<le> p * 50 div 100"
    using assms(1) by (intro div_le_mono mult_le_mono2)
  moreover have "p * fp div 100 \<le> p * 20 div 100"
    using assms(2) by (intro div_le_mono mult_le_mono2)
  ultimately show ?thesis by arith
qed

lemma distribution_ok:
  assumes "rp \<le> 50" "fp \<le> 20"
  shows "distribution p rp fp = Inr (p * rp div 100, p * fp div 100, p - p * rp div 100 - p * fp div 100)"
  using split_sum_le [OF assms, of p]
  by (simp add: distribution_def split_tokens_def sub_mutez_def)

subsection \<open>Preservation of the invariants\<close>

lemma refund_offers_fields:
  "refund_offers tos ks s = Inr s' \<Longrightarrow>
     tokens s' = tokens s \<and> next_id s' = next_id s \<and> offers s' = offers s \<and>
     collected_fees s' = collected_fees s \<and> admin s' = admin s \<and>
     pending_admin s' = pending_admin s \<and> platform_fee_percent s' = platform_fee_percent s \<and>
     mint_price s' = mint_price s \<and> min_sale_price s' = min_sale_price s \<and>
     max_metadata_length s' = max_metadata_length s \<and> max_supply s' = max_supply s \<and>
     paused s' = paused s"
proof (induction ks arbitrary: s)
  case Nil
  then show ?case by simp
next
  case (Cons k ks)
  then show ?case by (fastforce split: option.splits)
qed

lemmas entry_defs =
  mint_def list_for_sale_def update_price_def cancel_sale_def buy_def make_offer_def
  cancel_offer_def accept_offer_def transfer_def burn_def withdraw_def withdraw_fees_def
  set_pause_def propose_admin_def accept_admin_def cancel_admin_change_def
  update_platform_fee_def update_mint_price_def update_min_sale_price_def

lemma exec_bounds_inv:
  "exec c cl s = Inr (s', ops) \<Longrightarrow> bounds_inv s \<Longrightarrow> bounds_inv s'"
  by (cases cl)
     (auto simp: bounds_inv_def entry_defs Let_def
           dest!: refund_offers_fields
           split: if_splits option.splits sum.splits prod.splits)

lemma pending_inv_updates [simp]:
  "pending_inv (tokens_update f1 s) = pending_inv s"
  "pending_inv (next_id_update f2 s) = pending_inv s"
  "pending_inv (offers_update f3 s) = pending_inv s"
  "pending_inv (collected_fees_update f4 s) = pending_inv s"
  "pending_inv (admin_update f5 s) = pending_inv s"
  "pending_inv (pending_admin_update f6 s) = pending_inv s"
  "pending_inv (platform_fee_percent_update f7 s) = pending_inv s"
  "pending_inv (mint_price_update f8 s) = pending_inv s"
  "pending_inv (min_sale_price_update f9 s) = pending_inv s"
  "pending_inv (paused_update f10 s) = pending_inv s"
  by (simp_all add: pending_inv_def)

lemma pending_inv_add_pending: "pending_inv s \<Longrightarrow> pending_inv (add_pending r a s)"
  by (auto simp: pending_inv_def add_pending_def split: option.splits if_splits)

lemma pending_inv_distribute: "pending_inv s \<Longrightarrow> pending_inv (distribute au se r f sa s)"
  by (simp add: distribute_def Let_def pending_inv_add_pending)

lemma pending_inv_delete:
  "pending_inv s \<Longrightarrow> pending_inv (s\<lparr>pending_payments := (pending_payments s)(a := None)\<rparr>)"
  by (simp add: pending_inv_def)

lemma refund_offers_pending_inv:
  "refund_offers tos ks s = Inr s' \<Longrightarrow> pending_inv s \<Longrightarrow> pending_inv s'"
proof (induction ks arbitrary: s)
  case Nil
  then show ?case by simp
next
  case (Cons k ks)
  then show ?case by (auto split: option.splits intro: pending_inv_add_pending)
qed

lemma exec_pending_inv:
  "exec c cl s = Inr (s', ops) \<Longrightarrow> pending_inv s \<Longrightarrow> pending_inv s'"
  by (cases cl)
     (auto simp: entry_defs Let_def
           intro: pending_inv_add_pending pending_inv_distribute pending_inv_delete
           dest: refund_offers_pending_inv
           split: if_splits option.splits sum.splits prod.splits)

lemma exec_offers_inv:
  "exec c cl s = Inr (s', ops) \<Longrightarrow> offers_inv s \<Longrightarrow> offers_inv s'"
  by (cases cl)
     (auto simp: offers_inv_def entry_defs Let_def distinct_update distinct_delete
           dest!: refund_offers_fields
           split: if_splits option.splits sum.splits prod.splits)

lemma init_invs:
  "init a fp mp msp mml ms = Inr s \<Longrightarrow> bounds_inv s \<and> pending_inv s \<and> offers_inv s"
  by (auto simp: init_def bounds_inv_def pending_inv_def offers_inv_def split: if_splits)

lemma reach_invs: "reach P s \<Longrightarrow> bounds_inv s \<and> pending_inv s \<and> offers_inv s"
proof (induction rule: reach.induct)
  case (reach_init a fp mp msp mml ms s)
  then show ?case by (rule init_invs)
next
  case (reach_step s c cl s' ops)
  then show ?case by (blast intro: exec_bounds_inv exec_pending_inv exec_offers_inv)
qed

lemma reach_mono: "reach P s \<Longrightarrow> (\<And>c cl s. P c cl s \<Longrightarrow> Q c cl s) \<Longrightarrow> reach Q s"
  by (induction rule: reach.induct) (auto intro: reach.intros)

lemma reach_run: "reach P s \<Longrightarrow> run P cs s = Some s' \<Longrightarrow> reach P s'"
proof (induction cs arbitrary: s)
  case Nil
  then show ?case by simp
next
  case (Cons x cs)
  obtain c cl where x: "x = (c, cl)" by (cases x)
  from Cons.prems(2) x obtain s1 ops where
    "P c cl s" "exec c cl s = Inr (s1, ops)" "run P cs s1 = Some s'"
    by (auto split: if_splits sum.splits)
  with Cons.prems(1) Cons.IH show ?case by (blast intro: reach_step)
qed

subsection \<open>Example runs\<close>

lemmas eval_defs =
  entry_defs distribution_def split_tokens_def sub_mutez_def distribute_def add_pending_def
  Let_def

lemma reach_init_run:
  "init a fp mp msp mml ms = Inr s \<Longrightarrow> run P cs s = Some s' \<Longrightarrow> reach P s'"
  by (blast intro: reach_init reach_run)

lemma init_initial_storage: "init ''admin'' 5 1 1 256 0 = Inr initial_storage"
  by (simp add: init_def initial_storage_def)

lemma run_mint: "run P [mint_call] initial_storage = (if P (fst mint_call) (snd mint_call) initial_storage then Some after_mint else None)"
  by (simp add: mint_call_def initial_storage_def after_mint_def alice_token_def eval_defs)

lemma run_after_list: "run (\<lambda>c cl s. True) [mint_call, list_call] initial_storage = Some after_list"
  by (simp add: mint_call_def list_call_def initial_storage_def after_mint_def after_list_def
        alice_token_def eval_defs)

lemma run_after_sale:
  "run (\<lambda>c cl s. True) [mint_call, list_call, buy_call] initial_storage = Some after_sale"
  by (simp add: mint_call_def list_call_def buy_call_def initial_storage_def after_mint_def
        after_sale_def alice_token_def eval_defs)

lemma reachable_after_list: "reachable after_list"
  unfolding reachable_def by (rule reach_init_run [OF init_initial_storage run_after_list])

lemma reachable_after_sale: "reachable after_sale"
  unfolding reachable_def by (rule reach_init_run [OF init_initial_storage run_after_sale])

text \<open>
  C10. In every reachable storage every entry of \<^verbatim>\<open>pending_payments\<close> is strictly positive
  (\<open>add_pending\<close> skips a credit of zero and \<^verbatim>\<open>withdraw\<close> deletes the entry), so \<^verbatim>\<open>withdraw\<close>
  never fails with \<^verbatim>\<open>WITHDRAW: Zero amount\<close>.
\<close>

theorem pending_entries_positive:
  assumes "reachable s"
  shows "(\<forall>a v. pending_payments s a = Some v \<longrightarrow> 0 < v) \<and>
         (\<forall>c. withdraw c s \<noteq> Inl (Failwith ''WITHDRAW: Zero amount''))"
proof -
  from assms have inv: "pending_inv s"
    by (simp add: reachable_def reach_invs)
  then have pos: "\<forall>a v. pending_payments s a = Some v \<longrightarrow> 0 < v"
    by (simp add: pending_inv_def)
  then have "withdraw c s \<noteq> Inl (Failwith ''WITHDRAW: Zero amount'')" for c
    by (auto simp: withdraw_def split: option.splits)
  with pos show ?thesis by blast
qed

theorem pending_entries_positive_witness:
  "reachable after_sale \<and> pending_payments after_sale ''alice'' = Some 95 \<and> (0::nat) < 95 \<and>
   withdraw \<lparr>sp_sender = ''alice'', sp_amount = 0, sp_now = 1\<rparr> after_sale
     \<noteq> Inl (Failwith ''WITHDRAW: Zero amount'')"
  using pending_entries_positive [OF reachable_after_sale] reachable_after_sale
  by (simp add: after_sale_def)




lemma get_pending_updates [simp]:
  "get_pending (tokens_update f1 s) = get_pending s"
  "get_pending (offers_update f3 s) = get_pending s"
  "get_pending (collected_fees_update f4 s) = get_pending s"
  by (simp_all add: get_pending_def fun_eq_iff)

lemma get_pending_distribute:
  "get_pending (distribute au se r f sa s) x =
     (if au \<noteq> se
      then get_pending s x + (if x = au then r else 0) + (if x = se then sa else 0)
      else get_pending s x + (if x = se then sa + r else 0))"
  by (simp add: distribute_def Let_def get_pending_add_pending)

lemma buy_aborts_iff:
  assumes "bounds_inv s"
  shows "(\<exists>e. buy c tid s = Inl e) \<longleftrightarrow>
           (paused s \<or> tokens s tid = None \<or>
            (\<exists>t. tokens s tid = Some t \<and>
                 (\<not> for_sale t \<or> sp_sender c = owner t \<or> sp_amount c \<noteq> price t)))"
proof (cases "tokens s tid")
  case None
  then show ?thesis by (simp add: buy_def)
next
  case (Some t)
  with assms have "royalty_percent t \<le> 50" "platform_fee_percent s \<le> 20"
    by (auto simp: bounds_inv_def)
  then have "distribution (price t) (royalty_percent t) (platform_fee_percent s) =
      Inr (price t * royalty_percent t div 100, price t * platform_fee_percent s div 100,
           price t - price t * royalty_percent t div 100 - price t * platform_fee_percent s div 100)"
    by (rule distribution_ok)
  with Some show ?thesis by (simp add: buy_def Let_def)
qed

lemma buy_success:
  assumes "bounds_inv s" and "buy c tid s = Inr (s', ops)" and "tokens s tid = Some t"
  shows "s' = distribute (author t) (owner t)
                (price t * royalty_percent t div 100)
                (price t * platform_fee_percent s div 100)
                (price t - price t * royalty_percent t div 100
                   - price t * platform_fee_percent s div 100)
                (s\<lparr>tokens := (tokens s)(tid \<mapsto>
                      t\<lparr>owner := sp_sender c, for_sale := False, price := 0\<rparr>)\<rparr>)"
proof -
  from assms(1,3) have "royalty_percent t \<le> 50" "platform_fee_percent s \<le> 20"
    by (auto simp: bounds_inv_def)
  then have "distribution (price t) (royalty_percent t) (platform_fee_percent s) =
      Inr (price t * royalty_percent t div 100, price t * platform_fee_percent s div 100,
           price t - price t * royalty_percent t div 100 - price t * platform_fee_percent s div 100)"
    by (rule distribution_ok)
  with assms(2,3) show ?thesis
    by (simp add: buy_def Let_def split: if_splits)
qed

text \<open>
  C5. In a reachable storage \<^verbatim>\<open>buy\<close> aborts exactly when the contract is paused, the token
  is unknown, it is not for sale, the caller owns it, or the attached amount is not its
  price. On success only that token changes: its owner is the caller, it is no longer
  for sale and its price is 0; the fee \<open>floor (price * fee percent / 100)\<close> is added to
  \<^verbatim>\<open>collected_fees\<close>; the royalty is credited to the author and the rest to the seller, as
  one credit of both when the author is the seller; no other pending balance changes.
\<close>

theorem buy_settlement:
  assumes "reachable s"
  shows "((\<exists>e. buy c tid s = Inl e) \<longleftrightarrow>
            (paused s \<or> tokens s tid = None \<or>
             (\<exists>t. tokens s tid = Some t \<and>
                  (\<not> for_sale t \<or> sp_sender c = owner t \<or> sp_amount c \<noteq> price t)))) \<and>
         (\<forall>s' ops t royalty fee seller_amount.
            buy c tid s = Inr (s', ops) \<longrightarrow> tokens s tid = Some t \<longrightarrow>
            royalty = price t * royalty_percent t div 100 \<longrightarrow>
            fee = price t * platform_fee_percent s div 100 \<longrightarrow>
            int seller_amount = int (price t) - int royalty - int fee \<longrightarrow>
              tokens s' = (tokens s)(tid \<mapsto> t\<lparr>owner := sp_sender c, for_sale := False, price := 0\<rparr>) \<and>
              collected_fees s' = collected_fees s + fee \<and>
              (author t \<noteq> owner t \<longrightarrow>
                 get_pending s' (author t) = get_pending s (author t) + royalty \<and>
                 get_pending s' (owner t) = get_pending s (owner t) + seller_amount) \<and>
              (author t = owner t \<longrightarrow>
                 get_pending s' (owner t) = get_pending s (owner t) + (seller_amount + royalty)) \<and>
              (\<forall>a. a \<noteq> author t \<longrightarrow> a \<noteq> owner t \<longrightarrow> get_pending s' a = get_pending s a))"
proof -
  from assms have inv: "bounds_inv s"
    by (simp add: reachable_def reach_invs)
  have "tokens s' = (tokens s)(tid \<mapsto> t\<lparr>owner := sp_sender c, for_sale := False, price := 0\<rparr>) \<and>
        collected_fees s' = collected_fees s + fee \<and>
        (author t \<noteq> owner t \<longrightarrow>
           get_pending s' (author t) = get_pending s (author t) + royalty \<and>
           get_pending s' (owner t) = get_pending s (owner t) + seller_amount) \<and>
        (author t = owner t \<longrightarrow>
           get_pending s' (owner t) = get_pending s (owner t) + (seller_amount + royalty)) \<and>
        (\<forall>a. a \<noteq> author t \<longrightarrow> a \<noteq> owner t \<longrightarrow> get_pending s' a = get_pending s a)"
    if ok: "buy c tid s = Inr (s', ops)" and t: "tokens s tid = Some t"
      and r: "royalty = price t * royalty_percent t div 100"
      and f: "fee = price t * platform_fee_percent s div 100"
      and sa: "int seller_amount = int (price t) - int royalty - int fee"
    for s' ops t royalty fee seller_amount
  proof -
    from inv t have "royalty_percent t \<le> 50" "platform_fee_percent s \<le> 20"
      by (auto simp: bounds_inv_def)
    from split_sum_le [OF this, of "price t"] r f have "royalty + fee \<le> price t"
      by simp
    with sa have sa': "seller_amount = price t - royalty - fee"
      by linarith
    show ?thesis
      unfolding buy_success [OF inv ok t] r [symmetric] f [symmetric] sa' [symmetric]
      by (simp add: get_pending_distribute)
  qed
  with buy_aborts_iff [OF inv, of c tid] show ?thesis by blast
qed

theorem buy_settlement_witness:
  "reachable after_list \<and>
   buy \<lparr>sp_sender = ''bob'', sp_amount = 100, sp_now = 0\<rparr> 0 after_list =
     Inr (after_sale,
          [Emit ''Sale'' [(''token_id'', V_nat 0), (''seller'', V_address ''alice''),
                          (''buyer'', V_address ''bob''), (''price'', V_mutez 100),
                          (''royalty'', V_mutez 10), (''fee'', V_mutez 5)]]) \<and>
   collected_fees after_sale = collected_fees after_list + 5 \<and>
   get_pending after_sale ''alice'' = get_pending after_list ''alice'' + (85 + 10) \<and>
   get_pending after_sale ''bob'' = get_pending after_list ''bob''"
  using buy_settlement [OF reachable_after_list,
      of "\<lparr>sp_sender = ''bob'', sp_amount = 100, sp_now = 0\<rparr>" 0]
    reachable_after_list
  by (simp add: after_list_def after_sale_def after_mint_def initial_storage_def
        alice_token_def get_pending_def eval_defs)

lemmas run_defs =
  mint_call_def list_call_def buy_call_def bob_offer_call_def charlie_offer_call_def
  pause_call_def raise_floor_call_def

lemmas state_defs =
  initial_storage_def alice_token_def after_mint_def after_list_def after_sale_def
  after_offer_def after_offers_def after_pause_def after_raise_def

lemma run_after_mint: "run (\<lambda>c cl s. True) [mint_call] initial_storage = Some after_mint"
  by (simp add: run_mint)

lemma reachable_after_mint: "reachable after_mint"
  unfolding reachable_def by (rule reach_init_run [OF init_initial_storage run_after_mint])

lemma run_after_offer: "run (\<lambda>c cl s. True) [bob_offer_call] after_mint = Some after_offer"
  by (simp add: run_defs state_defs eval_defs)

lemma reachable_after_offer: "reachable after_offer"
  using reachable_after_mint run_after_offer unfolding reachable_def by (rule reach_run)

lemma run_after_pause:
  "run (\<lambda>c cl s. True) [charlie_offer_call, pause_call] after_offer = Some after_pause"
  by (simp add: run_defs state_defs eval_defs)

lemma reachable_after_pause: "reachable after_pause"
  using reachable_after_offer run_after_pause unfolding reachable_def by (rule reach_run)

lemma run_after_raise: "run (\<lambda>c cl s. True) [raise_floor_call] after_offer = Some after_raise"
  by (simp add: run_defs state_defs eval_defs)

lemma reachable_after_raise: "reachable after_raise"
  using reachable_after_offer run_after_raise unfolding reachable_def by (rule reach_run)

text \<open>
  C7. When the caller already has an offer on the token, a successful \<^verbatim>\<open>make_offer\<close>
  credits the amount of that offer to the caller's pending balance (and to no one
  else's) and stores the new offer, with the attached amount and the expiry
  \<^verbatim>\<open>sp.now\<close> plus the duration, in its place; the offers of the other bidders on the token
  are as before.
\<close>

theorem make_offer_replaces:
  assumes "offers s tid = Some tos"
    and "map_of tos (sp_sender c) = Some old"
    and "make_offer c tid d s = Inr (s', ops)"
  shows "get_pending s' (sp_sender c) = get_pending s (sp_sender c) + amount old \<and>
         (\<forall>a. a \<noteq> sp_sender c \<longrightarrow> get_pending s' a = get_pending s a) \<and>
         (\<exists>tos'. offers s' tid = Some tos' \<and>
            map_of tos' (sp_sender c) =
              Some \<lparr>amount = sp_amount c, expires_at = sp_now c + d\<rparr> \<and>
            (\<forall>b. b \<noteq> sp_sender c \<longrightarrow> map_of tos' b = map_of tos b))"
proof -
  let ?new = "\<lparr>amount = sp_amount c, expires_at = sp_now c + d\<rparr>"
  from assms have s': "s' = (add_pending (sp_sender c) (amount old) s)
      \<lparr>offers := (offers s)(tid \<mapsto> AList.update (sp_sender c) ?new tos)\<rparr>"
    by (simp add: make_offer_def Let_def split: if_splits option.splits)
  show ?thesis
    unfolding s' by (simp add: get_pending_add_pending update_conv')
qed

theorem make_offer_replaces_witness:
  "offers after_offer 0 = Some [(''bob'', \<lparr>amount = 50, expires_at = 86400\<rparr>)] \<and>
   make_offer \<lparr>sp_sender = ''bob'', sp_amount = 70, sp_now = 10\<rparr> 0 100 after_offer =
     Inr (after_mint\<lparr>offers := [0 \<mapsto> [(''bob'', \<lparr>amount = 70, expires_at = 110\<rparr>)]],
                      pending_payments := [''bob'' \<mapsto> 50]\<rparr>,
          [Emit ''OfferMade'' [(''token_id'', V_nat 0), (''buyer'', V_address ''bob''),
                               (''amount'', V_mutez 70), (''expires_at'', V_timestamp 110)]]) \<and>
   get_pending (after_mint\<lparr>offers := [0 \<mapsto> [(''bob'', \<lparr>amount = 70, expires_at = 110\<rparr>)]],
                           pending_payments := [''bob'' \<mapsto> 50]\<rparr>) ''bob''
     = get_pending after_offer ''bob'' + 50"
proof -
  have run: "make_offer \<lparr>sp_sender = ''bob'', sp_amount = 70, sp_now = 10\<rparr> 0 100 after_offer =
     Inr (after_mint\<lparr>offers := [0 \<mapsto> [(''bob'', \<lparr>amount = 70, expires_at = 110\<rparr>)]],
                      pending_payments := [''bob'' \<mapsto> 50]\<rparr>,
          [Emit ''OfferMade'' [(''token_id'', V_nat 0), (''buyer'', V_address ''bob''),
                               (''amount'', V_mutez 70), (''expires_at'', V_timestamp 110)]])"
    by (simp add: state_defs eval_defs)
  have off: "offers after_offer 0 = Some [(''bob'', \<lparr>amount = 50, expires_at = 86400\<rparr>)]"
    by (simp add: state_defs)
  from make_offer_replaces [OF off _ run] off run show ?thesis
    by simp
qed

text \<open>
  C9. \<^verbatim>\<open>accept_offer\<close> does not compare the offer with \<^verbatim>\<open>min_sale_price\<close>: in a reachable
  storage, when the contract is not paused, no tez is attached, the token and the
  bidder's offer exist, the caller owns the token and the offer has not expired, the
  call succeeds although the offer's amount is below the current floor, with the usual
  settlement on the offer's amount.
\<close>

theorem accept_offer_below_floor:
  assumes "reachable s"
    and "\<not> paused s" and "sp_amount c = 0"
    and "tokens s tid = Some t" and "offers s tid = Some tos"
    and "owner t = sp_sender c"
    and "map_of tos bidder = Some off" and "sp_now c < expires_at off"
    and "amount off < min_sale_price s"
  shows "\<exists>s' ops royalty fee seller_amount.
           accept_offer c tid bidder s = Inr (s', ops) \<and>
           royalty = amount off * royalty_percent t div 100 \<and>
           fee = amount off * platform_fee_percent s div 100 \<and>
           int seller_amount = int (amount off) - int royalty - int fee \<and>
           tokens s' = (tokens s)(tid \<mapsto> t\<lparr>owner := bidder, for_sale := False, price := 0\<rparr>) \<and>
           offers s' = (offers s)(tid \<mapsto> AList.delete bidder tos) \<and>
           collected_fees s' = collected_fees s + fee \<and>
           (\<forall>a. get_pending s' a =
              (if author t \<noteq> owner t
               then get_pending s a + (if a = author t then royalty else 0)
                      + (if a = owner t then seller_amount else 0)
               else get_pending s a + (if a = owner t then seller_amount + royalty else 0)))"
proof -
  let ?r = "amount off * royalty_percent t div 100"
  let ?f = "amount off * platform_fee_percent s div 100"
  from assms(1) have "bounds_inv s"
    by (simp add: reachable_def reach_invs)
  with assms(4) have b: "royalty_percent t \<le> 50" "platform_fee_percent s \<le> 20"
    by (auto simp: bounds_inv_def)
  have d: "distribution (amount off) (royalty_percent t) (platform_fee_percent s) =
             Inr (?r, ?f, amount off - ?r - ?f)"
    using b by (rule distribution_ok)
  have le: "?r + ?f \<le> amount off"
    using b by (rule split_sum_le)
  let ?sa = "amount off - ?r - ?f"
  let ?s' = "distribute (author t) (owner t) ?r ?f ?sa
              (s\<lparr>tokens := (tokens s)(tid \<mapsto> t\<lparr>owner := bidder, for_sale := False, price := 0\<rparr>),
                 offers := (offers s)(tid \<mapsto> AList.delete bidder tos)\<rparr>)"
  let ?ops = "[Emit ''OfferAccepted'' [(''token_id'', V_nat tid),
                                       (''seller'', V_address (owner t)),
                                       (''buyer'', V_address bidder),
                                       (''price'', V_mutez (amount off))]]"
  from assms(2-8) d have 1: "accept_offer c tid bidder s = Inr (?s', ?ops)"
    by (simp add: accept_offer_def Let_def)
  from le have 2: "int ?sa = int (amount off) - int ?r - int ?f"
    by linarith
  have 3: "tokens ?s' = (tokens s)(tid \<mapsto> t\<lparr>owner := bidder, for_sale := False, price := 0\<rparr>)"
    and 4: "offers ?s' = (offers s)(tid \<mapsto> AList.delete bidder tos)"
    and 5: "collected_fees ?s' = collected_fees s + ?f"
    by simp_all
  have 6: "\<forall>a. get_pending ?s' a =
              (if author t \<noteq> owner t
               then get_pending s a + (if a = author t then ?r else 0)
                      + (if a = owner t then ?sa else 0)
               else get_pending s a + (if a = owner t then ?sa + ?r else 0))"
    by (simp add: get_pending_distribute)
  from 1 2 3 4 5 6 show ?thesis
    by (intro exI [of _ ?s'] exI [of _ ?ops] exI [of _ ?r] exI [of _ ?f] exI [of _ ?sa])
       (intro conjI refl; assumption)
qed

theorem accept_offer_below_floor_witness:
  "reachable after_raise \<and> min_sale_price after_raise = 200 \<and>
   map_of [(''bob'', \<lparr>amount = 50, expires_at = 86400\<rparr>)] ''bob''
     = Some \<lparr>amount = 50, expires_at = 86400\<rparr> \<and>
   accept_offer \<lparr>sp_sender = ''alice'', sp_amount = 0, sp_now = 10\<rparr> 0 ''bob'' after_raise =
     Inr (after_raise\<lparr>tokens := [0 \<mapsto> alice_token\<lparr>owner := ''bob''\<rparr>],
                       offers := [0 \<mapsto> []],
                       pending_payments := [''alice'' \<mapsto> 48],
                       collected_fees := 3\<rparr>,
          [Emit ''OfferAccepted'' [(''token_id'', V_nat 0), (''seller'', V_address ''alice''),
                                   (''buyer'', V_address ''bob''), (''price'', V_mutez 50)]])"
  using accept_offer_below_floor [OF reachable_after_raise, of
      "\<lparr>sp_sender = ''alice'', sp_amount = 0, sp_now = 10\<rparr>" 0 alice_token
      "[(''bob'', \<lparr>amount = 50, expires_at = 86400\<rparr>)]" "''bob''"
      "\<lparr>amount = 50, expires_at = 86400\<rparr>"]
    reachable_after_raise
  by (simp add: state_defs eval_defs)

lemma refund_offers_get_pending:
  "refund_offers tos ks s = Inr s' \<Longrightarrow>
     get_pending s' a =
       get_pending s a
         + (case map_of tos a of None \<Rightarrow> 0 | Some off \<Rightarrow> amount off) * count_list ks a"
proof (induction ks arbitrary: s)
  case Nil
  then show ?case by simp
next
  case (Cons k ks)
  from Cons.prems obtain off where
    k: "map_of tos k = Some off"
    and rest: "refund_offers tos ks (add_pending k (amount off) s) = Inr s'"
    by (auto split: option.splits)
  from Cons.IH [OF rest] k show ?case
    by (simp add: get_pending_add_pending)
qed

lemma refund_offers_keys:
  "set ks \<subseteq> fst ` set tos \<Longrightarrow> \<exists>s'. refund_offers tos ks s = Inr s'"
proof (induction ks arbitrary: s)
  case Nil
  then show ?case by simp
next
  case (Cons k ks)
  from Cons.prems have "k \<in> fst ` set tos" by simp
  then obtain off where "map_of tos k = Some off"
    by (metis map_of_eq_None_iff not_Some_eq)
  with Cons show ?case by simp
qed

lemma count_list_distinct: "distinct xs \<Longrightarrow> x \<in> set xs \<Longrightarrow> count_list xs x = 1"
  by (induction xs) auto

lemma count_list_keys:
  "distinct (map fst tos) \<Longrightarrow>
     (case map_of tos a of None \<Rightarrow> 0 | Some off \<Rightarrow> amount off) * count_list (map fst tos) a
       = (case map_of tos a of None \<Rightarrow> 0 | Some off \<Rightarrow> amount off)"
proof (cases "map_of tos a")
  case None
  then show ?thesis by simp
next
  case (Some off)
  assume "distinct (map fst tos)"
  moreover from Some have "a \<in> set (map fst tos)"
    by (metis map_of_eq_None_iff option.distinct(1) set_map)
  ultimately have "count_list (map fst tos) a = 1"
    by (rule count_list_distinct)
  then show ?thesis by simp
qed

lemma burn_aborts_iff:
  "(\<exists>e. burn c tid s = Inl e) \<longleftrightarrow>
     (sp_amount c \<noteq> 0 \<or> tokens s tid = None \<or>
      (\<exists>t. tokens s tid = Some t \<and> (owner t \<noteq> sp_sender c \<or> for_sale t)))"
proof (cases "offers s tid")
  case None
  then show ?thesis
    by (auto simp: burn_def Let_def split: option.splits)
next
  case (Some tos)
  obtain s2 where
    "refund_offers tos (map fst tos) (s\<lparr>tokens := (tokens s)(tid := None)\<rparr>) = Inr s2"
    using refund_offers_keys [of "map fst tos" tos] by auto
  with Some show ?thesis
    by (auto simp: burn_def Let_def split: option.splits)
qed

lemma burn_success:
  assumes "offers_inv s" and "burn c tid s = Inr (s', ops)"
  shows "tokens s' = (tokens s)(tid := None) \<and> offers s' = (offers s)(tid := None) \<and>
         (\<forall>a. get_pending s' a =
            get_pending s a +
              (case offers s tid of
                 None \<Rightarrow> 0
               | Some tos \<Rightarrow> (case map_of tos a of None \<Rightarrow> 0 | Some off \<Rightarrow> amount off)))"
proof (cases "offers s tid")
  case None
  with assms(2) have "s' = s\<lparr>tokens := (tokens s)(tid := None)\<rparr>"
    by (auto simp: burn_def Let_def split: option.splits if_splits)
  with None show ?thesis by auto
next
  case (Some tos)
  let ?s1 = "s\<lparr>tokens := (tokens s)(tid := None)\<rparr>"
  from assms(2) Some obtain s2 where
    r: "refund_offers tos (map fst tos) ?s1 = Inr s2"
    and s': "s' = s2\<lparr>offers := (offers s2)(tid := None)\<rparr>"
    by (auto simp: burn_def Let_def split: option.splits if_splits sum.splits)
  from assms(1) Some have d: "distinct (map fst tos)"
    by (simp add: offers_inv_def)
  have "get_pending s2 a =
          get_pending s a + (case map_of tos a of None \<Rightarrow> 0 | Some off \<Rightarrow> amount off)" for a
    using refund_offers_get_pending [OF r, of a] count_list_keys [OF d, of a] by simp
  with refund_offers_fields [OF r] Some s' show ?thesis
    by simp
qed

text \<open>
  C6 (amended). \<^verbatim>\<open>burn\<close> does not look at the pause flag. It aborts exactly when tez is
  attached to the call, the token is unknown, the caller is not its owner, or it is
  listed. On success, in a reachable storage, the token is deleted, every offer on it
  credits its own amount to its bidder's pending balance (nothing else is credited),
  and the token's offer map is removed.
\<close>

theorem burn_refunds_offers:
  assumes "reachable s"
  shows "((\<exists>e. burn c tid s = Inl e) \<longleftrightarrow>
            (sp_amount c \<noteq> 0 \<or> tokens s tid = None \<or>
             (\<exists>t. tokens s tid = Some t \<and> (owner t \<noteq> sp_sender c \<or> for_sale t)))) \<and>
         (\<forall>s' ops. burn c tid s = Inr (s', ops) \<longrightarrow>
            tokens s' = (tokens s)(tid := None) \<and> offers s' = (offers s)(tid := None) \<and>
            (\<forall>a. get_pending s' a =
               get_pending s a +
                 (case offers s tid of
                    None \<Rightarrow> 0
                  | Some tos \<Rightarrow> (case map_of tos a of None \<Rightarrow> 0 | Some off \<Rightarrow> amount off))))"
proof -
  from assms have "offers_inv s"
    by (simp add: reachable_def reach_invs)
  then show ?thesis
    using burn_aborts_iff [of c tid s] burn_success [of s c tid] by blast
qed

theorem burn_refunds_offers_witness:
  "reachable after_pause \<and> paused after_pause \<and>
   burn \<lparr>sp_sender = ''alice'', sp_amount = 0, sp_now = 5\<rparr> 0 after_pause =
     Inr (after_pause\<lparr>tokens := Map.empty, offers := Map.empty,
                       pending_payments := [''bob'' \<mapsto> 50, ''charlie'' \<mapsto> 60]\<rparr>,
          [Emit ''Burn'' [(''token_id'', V_nat 0), (''owner'', V_address ''alice'')]]) \<and>
   get_pending (after_pause\<lparr>tokens := Map.empty, offers := Map.empty,
                  pending_payments := [''bob'' \<mapsto> 50, ''charlie'' \<mapsto> 60]\<rparr>) ''bob''
     = get_pending after_pause ''bob'' + 50 \<and>
   get_pending (after_pause\<lparr>tokens := Map.empty, offers := Map.empty,
                  pending_payments := [''bob'' \<mapsto> 50, ''charlie'' \<mapsto> 60]\<rparr>) ''charlie''
     = get_pending after_pause ''charlie'' + 60"
proof -
  have run: "burn \<lparr>sp_sender = ''alice'', sp_amount = 0, sp_now = 5\<rparr> 0 after_pause =
     Inr (after_pause\<lparr>tokens := Map.empty, offers := Map.empty,
                       pending_payments := [''bob'' \<mapsto> 50, ''charlie'' \<mapsto> 60]\<rparr>,
          [Emit ''Burn'' [(''token_id'', V_nat 0), (''owner'', V_address ''alice'')]])"
    by (simp add: state_defs eval_defs)
  from burn_refunds_offers [OF reachable_after_pause, of
      "\<lparr>sp_sender = ''alice'', sp_amount = 0, sp_now = 5\<rparr>" 0]
    run reachable_after_pause
  show ?thesis
    by (simp add: state_defs get_pending_def)
qed

text \<open>
  C6 as stated fails: with tez attached, \<^verbatim>\<open>burn\<close> aborts although the token is known and
  not listed and the caller owns it.
\<close>

theorem burn_abort_counterexample:
  "reachable after_mint \<and>
   tokens after_mint 0 = Some alice_token \<and>
   owner alice_token = ''alice'' \<and> for_sale alice_token = False \<and>
   burn \<lparr>sp_sender = ''alice'', sp_amount = 1, sp_now = 5\<rparr> 0 after_mint =
     Inl (Failwith ''BURN: No tez expected'')"
  using reachable_after_mint by (simp add: state_defs burn_def)

lemma run_after_propose: "run (\<lambda>c cl s. True) [propose_call] initial_storage = Some after_propose"
  by (simp add: propose_call_def after_propose_def initial_storage_def eval_defs)

lemma reachable_after_propose: "reachable after_propose"
  unfolding reachable_def by (rule reach_init_run [OF init_initial_storage run_after_propose])

text \<open>
  C8 as stated fails: \<^verbatim>\<open>pending_admin\<close> moves to a proposed address from a storage where
  another address is already proposed, not only from one where none is.
\<close>

theorem propose_admin_counterexample:
  "reachable after_propose \<and> pending_admin after_propose = Some ''bob'' \<and>
   exec \<lparr>sp_sender = ''admin'', sp_amount = 0, sp_now = 1\<rparr> (Propose_admin ''carol'') after_propose =
     Inr (after_propose\<lparr>pending_admin := Some ''carol''\<rparr>,
          [Emit ''AdminProposed'' [(''proposed'', V_address ''carol'')]])"
  using reachable_after_propose
  by (simp add: after_propose_def initial_storage_def eval_defs)

lemma run_listed_below_floor:
  "run (\<lambda>c cl s. True) [raise_floor_call] after_list = Some listed_below_floor"
  by (simp add: run_defs state_defs listed_below_floor_def eval_defs)

text \<open>
  C1 as stated fails: after the admin has raised the floor to 200, token 0 is still for
  sale at 100.
\<close>

theorem listed_price_floor_counterexample:
  "reachable listed_below_floor \<and>
   tokens listed_below_floor 0 = Some (alice_token\<lparr>price := 100, for_sale := True\<rparr>) \<and>
   for_sale (alice_token\<lparr>price := 100, for_sale := True\<rparr>) \<and>
   price (alice_token\<lparr>price := 100, for_sale := True\<rparr>) = 100 \<and>
   min_sale_price listed_below_floor = 200 \<and>
   price (alice_token\<lparr>price := 100, for_sale := True\<rparr>) < min_sale_price listed_below_floor"
proof -
  have "reachable listed_below_floor"
    using reachable_after_list run_listed_below_floor unfolding reachable_def by (rule reach_run)
  then show ?thesis
    by (simp add: listed_below_floor_def state_defs)
qed

lemma burn_free_add_pending [simp]: "burn_free (add_pending r a s) = burn_free s"
  by (simp add: burn_free_def)

lemma burn_free_distribute [simp]: "burn_free (distribute au se r f sa s) = burn_free s"
  by (simp add: burn_free_def)







lemma exec_listing_inv:
  assumes "exec c cl s = Inr (s', ops)" and "floor_below_listings c cl s" and "listing_inv s"
  shows "listing_inv s'"
proof (cases cl)
  case (Update_min_sale_price p)
  with assms(1) have "s' = s\<lparr>min_sale_price := p\<rparr>"
    by (auto simp: update_min_sale_price_def split: if_splits)
  with assms(2) Update_min_sale_price show ?thesis
    by (simp add: listing_inv_def)
qed (use assms in \<open>auto simp: listing_inv_def entry_defs Let_def
           dest!: refund_offers_fields
           split: if_splits option.splits sum.splits prod.splits\<close>)

lemma reach_listing_inv: "reach floor_below_listings s \<Longrightarrow> listing_inv s"
proof (induction rule: reach.induct)
  case (reach_init a fp mp msp mml ms s)
  then show ?case by (auto simp: init_def listing_inv_def split: if_splits)
next
  case (reach_step s c cl s' ops)
  then show ?case by (blast intro: exec_listing_inv)
qed

lemma run_after_harmless_raise:
  "run floor_below_listings [mint_call, list_call, harmless_raise_call] initial_storage
     = Some after_harmless_raise"
  by (simp add: run_defs harmless_raise_call_def state_defs after_harmless_raise_def eval_defs)

text \<open>
  C1 (amended). In every storage reached from an initial one by successful calls among
  which no \<^verbatim>\<open>update_min_sale_price\<close> sets the floor above the price of a token that is for
  sale at that moment, every token that is for sale has a price of at least the current
  \<^verbatim>\<open>min_sale_price\<close>. The restriction excludes nothing else: an \<^verbatim>\<open>update_min_sale_price\<close> that
  sets the floor above the price of a token for sale succeeds whenever the admin calls it
  without tez, changes no token, and leaves that token for sale below the floor.
\<close>

theorem listed_price_floor:
  "(reach floor_below_listings s \<longrightarrow> tokens s tid = Some t \<longrightarrow> for_sale t \<longrightarrow>
      min_sale_price s \<le> price t) \<and>
   (sp_amount c = 0 \<longrightarrow> sp_sender c = admin s1 \<longrightarrow>
    tokens s1 tid1 = Some t1 \<longrightarrow> for_sale t1 \<longrightarrow> price t1 < p \<longrightarrow>
      (\<exists>s2 ops. update_min_sale_price c p s1 = Inr (s2, ops) \<and>
         tokens s2 = tokens s1 \<and> min_sale_price s2 = p \<and>
         tokens s2 tid1 = Some t1 \<and> price t1 < min_sale_price s2))"
proof -
  have "min_sale_price s \<le> price t"
    if "reach floor_below_listings s" and "tokens s tid = Some t" and "for_sale t"
    using reach_listing_inv [OF that(1)] that(2,3) by (auto simp: listing_inv_def)
  moreover have "\<exists>s2 ops. update_min_sale_price c p s1 = Inr (s2, ops) \<and>
         tokens s2 = tokens s1 \<and> min_sale_price s2 = p \<and>
         tokens s2 tid1 = Some t1 \<and> price t1 < min_sale_price s2"
    if "sp_amount c = 0" and "sp_sender c = admin s1"
      and "tokens s1 tid1 = Some t1" and "price t1 < p"
    using that by (simp add: update_min_sale_price_def)
  ultimately show ?thesis by blast
qed

theorem listed_price_floor_witness:
  "reach floor_below_listings after_harmless_raise \<and>
   min_sale_price after_list = 1 \<and> min_sale_price after_harmless_raise = 50 \<and>
   tokens after_harmless_raise 0 = Some (alice_token\<lparr>price := 100, for_sale := True\<rparr>) \<and>
   for_sale (alice_token\<lparr>price := 100, for_sale := True\<rparr>) \<and>
   min_sale_price after_harmless_raise \<le> price (alice_token\<lparr>price := 100, for_sale := True\<rparr>) \<and>
   update_min_sale_price \<lparr>sp_sender = ''admin'', sp_amount = 0, sp_now = 0\<rparr> 200 after_list =
     Inr (listed_below_floor, [Emit ''MinSalePriceUpdated'' [(''new_price'', V_mutez 200)]])"
proof -
  have r: "reach floor_below_listings after_harmless_raise"
    by (rule reach_init_run [OF init_initial_storage run_after_harmless_raise])
  have t: "tokens after_harmless_raise 0 = Some (alice_token\<lparr>price := 100, for_sale := True\<rparr>)"
    by (simp add: after_harmless_raise_def state_defs)
  have f: "for_sale (alice_token\<lparr>price := 100, for_sale := True\<rparr>)"
    by simp
  from listed_price_floor
    [of after_harmless_raise 0 "alice_token\<lparr>price := 100, for_sale := True\<rparr>"
        "\<lparr>sp_sender = ''admin'', sp_amount = 0, sp_now = 0\<rparr>" after_list 0
        "alice_token\<lparr>price := 100, for_sale := True\<rparr>" 200]
    r t f
  show ?thesis
    by (simp add: after_harmless_raise_def listed_below_floor_def state_defs
          update_min_sale_price_def)
qed

lemma buy_result:
  assumes "tokens s tid = Some t"
    and "royalty_percent t \<le> 50" and "platform_fee_percent s \<le> 20"
  shows "buy c tid s =
     (if paused s then Inl (Failwith ''BUY: Contract paused'')
      else if \<not> for_sale t then Inl (Failwith ''BUY: Not for sale'')
      else if sp_sender c = owner t then Inl (Failwith ''BUY: Cannot buy own token'')
      else if sp_amount c \<noteq> price t then Inl (Failwith ''BUY: Wrong amount'')
      else Inr (distribute (author t) (owner t)
                  (price t * royalty_percent t div 100)
                  (price t * platform_fee_percent s div 100)
                  (price t - price t * royalty_percent t div 100
                     - price t * platform_fee_percent s div 100)
                  (s\<lparr>tokens := (tokens s)(tid \<mapsto>
                        t\<lparr>owner := sp_sender c, for_sale := False, price := 0\<rparr>)\<rparr>),
                [Emit ''Sale'' [(''token_id'', V_nat tid),
                                (''seller'', V_address (owner t)),
                                (''buyer'', V_address (sp_sender c)),
                                (''price'', V_mutez (price t)),
                                (''royalty'', V_mutez (price t * royalty_percent t div 100)),
                                (''fee'', V_mutez (price t * platform_fee_percent s div 100))]]))"
  using assms(1) distribution_ok [OF assms(2,3), of "price t"]
  by (simp add: buy_def Let_def)

lemma accept_offer_result:
  assumes "tokens s tid = Some t"
    and "royalty_percent t \<le> 50" and "platform_fee_percent s \<le> 20"
    and "offers s tid = Some tos" and "map_of tos bidder = Some off"
  shows "accept_offer c tid bidder s =
     (if paused s then Inl (Failwith ''ACCEPT: Contract paused'')
      else if sp_amount c \<noteq> 0 then Inl (Failwith ''ACCEPT: No tez expected'')
      else if owner t \<noteq> sp_sender c then Inl (Failwith ''ACCEPT: Not owner'')
      else if \<not> sp_now c < expires_at off then Inl (Failwith ''ACCEPT: Offer expired'')
      else Inr (distribute (author t) (owner t)
                  (amount off * royalty_percent t div 100)
                  (amount off * platform_fee_percent s div 100)
                  (amount off - amount off * royalty_percent t div 100
                     - amount off * platform_fee_percent s div 100)
                  (s\<lparr>tokens := (tokens s)(tid \<mapsto>
                        t\<lparr>owner := bidder, for_sale := False, price := 0\<rparr>),
                     offers := (offers s)(tid \<mapsto> AList.delete bidder tos)\<rparr>),
                [Emit ''OfferAccepted'' [(''token_id'', V_nat tid),
                                         (''seller'', V_address (owner t)),
                                         (''buyer'', V_address bidder),
                                         (''price'', V_mutez (amount off))]]))"
  using assms(1,4,5) distribution_ok [OF assms(2,3), of "amount off"]
  by (simp add: accept_offer_def Let_def)

lemma distribute_settles:
  assumes "royalty + fee \<le> q"
  shows "collected_fees (distribute au se royalty fee (q - royalty - fee) s0) = collected_fees s0 + fee \<and>
         (\<forall>a. int (get_pending (distribute au se royalty fee (q - royalty - fee) s0) a) =
            int (get_pending s0 a) +
              (if au \<noteq> se
               then (if a = au then int royalty else 0)
                      + (if a = se then int q - int royalty - int fee else 0)
               else (if a = se then int q - int fee else 0)))"
  using assms by (auto simp: get_pending_distribute)

lemma run_resale: "run (\<lambda>c cl s. True) resale_calls initial_storage = Some resale_listed"
  by (simp add: resale_calls_def resale_listed_def bob_token_def state_defs eval_defs
        burn_address_def)

lemma reachable_resale_listed: "reachable resale_listed"
  unfolding reachable_def by (rule reach_init_run [OF init_initial_storage run_resale])

text \<open>
  C4. The split of a settlement. With a royalty percentage of at most 50 and a fee
  percentage of at most 20 the computation of the split does not abort, the royalty is
  \<open>floor (p * rp / 100)\<close>, the fee is \<open>floor (p * fp / 100)\<close>, the seller amount is the price
  less both and is not negative, and the three parts never add up to more than the
  price. Both settlements use this split, \<^verbatim>\<open>buy\<close> on the token's price and \<^verbatim>\<open>accept_offer\<close> on
  the offer's amount: when their other guards hold they succeed, and whenever they
  succeed the fee of the split is added to \<^verbatim>\<open>collected_fees\<close>, the royalty of the split is
  credited to the author and the seller amount of the split to the seller (both to the
  seller when the seller is the author), and no one else is credited.
\<close>

theorem settlement_floor_split:
  "(rp \<le> 50 \<longrightarrow> fp \<le> 20 \<longrightarrow>
      (\<exists>royalty fee seller_amount.
         distribution p rp fp = Inr (royalty, fee, seller_amount) \<and>
         royalty = p * rp div 100 \<and> fee = p * fp div 100 \<and>
         int seller_amount = int p - int royalty - int fee \<and>
         0 \<le> int p - int royalty - int fee \<and>
         royalty + fee + seller_amount \<le> p)) \<and>
   (tokens s tid = Some t \<longrightarrow> royalty_percent t \<le> 50 \<longrightarrow> platform_fee_percent s \<le> 20 \<longrightarrow>
      (\<not> paused s \<longrightarrow> for_sale t \<longrightarrow> sp_sender c \<noteq> owner t \<longrightarrow> sp_amount c = price t \<longrightarrow>
         (\<exists>s' ops. buy c tid s = Inr (s', ops))) \<and>
      (\<forall>s' ops. buy c tid s = Inr (s', ops) \<longrightarrow>
         (let q = price t;
              royalty = q * royalty_percent t div 100;
              fee = q * platform_fee_percent s div 100
          in collected_fees s' = collected_fees s + fee \<and>
             (\<forall>a. int (get_pending s' a) =
                int (get_pending s a) +
                  (if author t \<noteq> owner t
                   then (if a = author t then int royalty else 0)
                          + (if a = owner t then int q - int royalty - int fee else 0)
                   else (if a = owner t then int q - int fee else 0))))) \<and>
      (\<forall>tos off. offers s tid = Some tos \<longrightarrow> map_of tos bidder = Some off \<longrightarrow>
         (\<not> paused s \<longrightarrow> sp_amount c = 0 \<longrightarrow> owner t = sp_sender c \<longrightarrow>
          sp_now c < expires_at off \<longrightarrow>
            (\<exists>s' ops. accept_offer c tid bidder s = Inr (s', ops))) \<and>
         (\<forall>s' ops. accept_offer c tid bidder s = Inr (s', ops) \<longrightarrow>
            (let q = amount off;
                 royalty = q * royalty_percent t div 100;
                 fee = q * platform_fee_percent s div 100
             in collected_fees s' = collected_fees s + fee \<and>
                (\<forall>a. int (get_pending s' a) =
                   int (get_pending s a) +
                     (if author t \<noteq> owner t
                      then (if a = author t then int royalty else 0)
                             + (if a = owner t then int q - int royalty - int fee else 0)
                      else (if a = owner t then int q - int fee else 0)))))))"
proof (intro conjI impI)
  assume b: "rp \<le> 50" "fp \<le> 20"
  from split_sum_le [OF b, of p] distribution_ok [OF b, of p]
  show "\<exists>royalty fee seller_amount.
         distribution p rp fp = Inr (royalty, fee, seller_amount) \<and>
         royalty = p * rp div 100 \<and> fee = p * fp div 100 \<and>
         int seller_amount = int p - int royalty - int fee \<and>
         0 \<le> int p - int royalty - int fee \<and>
         royalty + fee + seller_amount \<le> p"
    by simp
next
  assume t: "tokens s tid = Some t"
    and b: "royalty_percent t \<le> 50" "platform_fee_percent s \<le> 20"
  assume "\<not> paused s" "for_sale t" "sp_sender c \<noteq> owner t" "sp_amount c = price t"
  then show "\<exists>s' ops. buy c tid s = Inr (s', ops)"
    by (simp add: buy_result [OF t b])
next
  assume t: "tokens s tid = Some t"
    and b: "royalty_percent t \<le> 50" "platform_fee_percent s \<le> 20"
  show "\<forall>s' ops. buy c tid s = Inr (s', ops) \<longrightarrow>
         (let q = price t;
              royalty = q * royalty_percent t div 100;
              fee = q * platform_fee_percent s div 100
          in collected_fees s' = collected_fees s + fee \<and>
             (\<forall>a. int (get_pending s' a) =
                int (get_pending s a) +
                  (if author t \<noteq> owner t
                   then (if a = author t then int royalty else 0)
                          + (if a = owner t then int q - int royalty - int fee else 0)
                   else (if a = owner t then int q - int fee else 0))))"
  proof (intro allI impI)
    fix s' ops
    assume "buy c tid s = Inr (s', ops)"
    then have s': "s' = distribute (author t) (owner t)
                  (price t * royalty_percent t div 100)
                  (price t * platform_fee_percent s div 100)
                  (price t - price t * royalty_percent t div 100
                     - price t * platform_fee_percent s div 100)
                  (s\<lparr>tokens := (tokens s)(tid \<mapsto>
                        t\<lparr>owner := sp_sender c, for_sale := False, price := 0\<rparr>)\<rparr>)"
      by (simp add: buy_result [OF t b] split: if_splits)
    show "let q = price t;
              royalty = q * royalty_percent t div 100;
              fee = q * platform_fee_percent s div 100
          in collected_fees s' = collected_fees s + fee \<and>
             (\<forall>a. int (get_pending s' a) =
                int (get_pending s a) +
                  (if author t \<noteq> owner t
                   then (if a = author t then int royalty else 0)
                          + (if a = owner t then int q - int royalty - int fee else 0)
                   else (if a = owner t then int q - int fee else 0)))"
      unfolding Let_def s'
      using distribute_settles [OF split_sum_le [OF b, of "price t"]]
      by simp
  qed
next
  assume t: "tokens s tid = Some t"
    and b: "royalty_percent t \<le> 50" "platform_fee_percent s \<le> 20"
  show "\<forall>tos off. offers s tid = Some tos \<longrightarrow> map_of tos bidder = Some off \<longrightarrow>
         (\<not> paused s \<longrightarrow> sp_amount c = 0 \<longrightarrow> owner t = sp_sender c \<longrightarrow>
          sp_now c < expires_at off \<longrightarrow>
            (\<exists>s' ops. accept_offer c tid bidder s = Inr (s', ops))) \<and>
         (\<forall>s' ops. accept_offer c tid bidder s = Inr (s', ops) \<longrightarrow>
            (let q = amount off;
                 royalty = q * royalty_percent t div 100;
                 fee = q * platform_fee_percent s div 100
             in collected_fees s' = collected_fees s + fee \<and>
                (\<forall>a. int (get_pending s' a) =
                   int (get_pending s a) +
                     (if author t \<noteq> owner t
                      then (if a = author t then int royalty else 0)
                             + (if a = owner t then int q - int royalty - int fee else 0)
                      else (if a = owner t then int q - int fee else 0)))))"
  proof (intro allI impI conjI)
    fix tos off
    assume o: "offers s tid = Some tos" "map_of tos bidder = Some off"
    assume "\<not> paused s" "sp_amount c = 0" "owner t = sp_sender c" "sp_now c < expires_at off"
    then show "\<exists>s' ops. accept_offer c tid bidder s = Inr (s', ops)"
      by (simp add: accept_offer_result [OF t b o])
  next
    fix tos off s' ops
    assume o: "offers s tid = Some tos" "map_of tos bidder = Some off"
    assume "accept_offer c tid bidder s = Inr (s', ops)"
    then have s': "s' = distribute (author t) (owner t)
                  (amount off * royalty_percent t div 100)
                  (amount off * platform_fee_percent s div 100)
                  (amount off - amount off * royalty_percent t div 100
                     - amount off * platform_fee_percent s div 100)
                  (s\<lparr>tokens := (tokens s)(tid \<mapsto>
                        t\<lparr>owner := bidder, for_sale := False, price := 0\<rparr>),
                     offers := (offers s)(tid \<mapsto> AList.delete bidder tos)\<rparr>)"
      by (simp add: accept_offer_result [OF t b o] split: if_splits)
    show "let q = amount off;
                 royalty = q * royalty_percent t div 100;
                 fee = q * platform_fee_percent s div 100
             in collected_fees s' = collected_fees s + fee \<and>
                (\<forall>a. int (get_pending s' a) =
                   int (get_pending s a) +
                     (if author t \<noteq> owner t
                      then (if a = author t then int royalty else 0)
                             + (if a = owner t then int q - int royalty - int fee else 0)
                      else (if a = owner t then int q - int fee else 0)))"
      unfolding Let_def s'
      using distribute_settles [OF split_sum_le [OF b, of "amount off"]]
      by simp
  qed
qed

theorem settlement_floor_split_witness:
  "distribution 100 10 5 = Inr (10, 5, 85) \<and> distribution 50 20 5 = Inr (10, 2, 38) \<and>
   reachable resale_listed \<and>
   buy \<lparr>sp_sender = ''alice'', sp_amount = 50, sp_now = 1\<rparr> 0 resale_listed =
     Inr (after_resale,
          [Emit ''Sale'' [(''token_id'', V_nat 0), (''seller'', V_address ''charlie''),
                          (''buyer'', V_address ''alice''), (''price'', V_mutez 50),
                          (''royalty'', V_mutez 10), (''fee'', V_mutez 2)]]) \<and>
   collected_fees after_resale = collected_fees resale_listed + 2 \<and>
   get_pending after_resale ''bob'' = get_pending resale_listed ''bob'' + 10 \<and>
   get_pending after_resale ''charlie'' = get_pending resale_listed ''charlie'' + 38 \<and>
   buy \<lparr>sp_sender = ''bob'', sp_amount = 100, sp_now = 0\<rparr> 0 after_list =
     Inr (after_sale,
          [Emit ''Sale'' [(''token_id'', V_nat 0), (''seller'', V_address ''alice''),
                          (''buyer'', V_address ''bob''), (''price'', V_mutez 100),
                          (''royalty'', V_mutez 10), (''fee'', V_mutez 5)]]) \<and>
   collected_fees after_sale = collected_fees after_list + 5 \<and>
   get_pending after_sale ''alice'' = get_pending after_list ''alice'' + (85 + 10) \<and>
   min_sale_price after_offer = 1 \<and>
   accept_offer \<lparr>sp_sender = ''alice'', sp_amount = 0, sp_now = 10\<rparr> 0 ''bob'' after_offer =
     Inr (after_offer\<lparr>tokens := [0 \<mapsto> alice_token\<lparr>owner := ''bob''\<rparr>],
                      offers := [0 \<mapsto> []],
                      pending_payments := [''alice'' \<mapsto> 48],
                      collected_fees := 3\<rparr>,
          [Emit ''OfferAccepted'' [(''token_id'', V_nat 0), (''seller'', V_address ''alice''),
                                   (''buyer'', V_address ''bob''), (''price'', V_mutez 50)]])"
  using
    settlement_floor_split [where rp = 10 and fp = 5 and p = 100 and s = resale_listed
      and tid = 0 and t = "bob_token\<lparr>owner := ''charlie'', price := 50, for_sale := True\<rparr>"
      and c = "\<lparr>sp_sender = ''alice'', sp_amount = 50, sp_now = 1\<rparr>" and bidder = "''bob''"]
    settlement_floor_split [where rp = 20 and fp = 5 and p = 50 and s = after_list
      and tid = 0 and t = "alice_token\<lparr>price := 100, for_sale := True\<rparr>"
      and c = "\<lparr>sp_sender = ''bob'', sp_amount = 100, sp_now = 0\<rparr>" and bidder = "''bob''"]
    settlement_floor_split [where rp = 20 and fp = 5 and p = 50 and s = after_offer
      and tid = 0 and t = alice_token
      and c = "\<lparr>sp_sender = ''alice'', sp_amount = 0, sp_now = 10\<rparr>" and bidder = "''bob''"]
    reachable_resale_listed
  by (simp add: resale_listed_def after_resale_def bob_token_def state_defs eval_defs
        get_pending_def)

lemma exec_admin_step:
  assumes "exec c cl s = Inr (s', ops)"
  shows "(cl = Accept_admin \<and> pending_admin s = Some (sp_sender c) \<and>
            admin s' = sp_sender c \<and> pending_admin s' = None) \<or>
         (cl = Cancel_admin_change \<and> sp_sender c = admin s \<and>
            admin s' = admin s \<and> pending_admin s' = None) \<or>
         (\<exists>x. cl = Propose_admin x \<and> sp_sender c = admin s \<and> x \<noteq> admin s \<and>
            admin s' = admin s \<and> pending_admin s' = Some x) \<or>
         (cl \<noteq> Accept_admin \<and> cl \<noteq> Cancel_admin_change \<and> (\<forall>x. cl \<noteq> Propose_admin x) \<and>
            admin s' = admin s \<and> pending_admin s' = pending_admin s)"
  using assms
  by (cases cl)
     (auto simp: entry_defs Let_def
           dest!: refund_offers_fields
           split: if_splits option.splits sum.splits prod.splits)

text \<open>
  C8 (amended). The steps of the handover on \<^verbatim>\<open>admin\<close> and \<^verbatim>\<open>pending_admin\<close>. Every
  successful call is one of four steps: \<^verbatim>\<open>accept_admin\<close> by the proposed address, which
  becomes the admin and clears \<^verbatim>\<open>pending_admin\<close>; \<^verbatim>\<open>cancel_admin_change\<close> by the admin, which
  clears \<^verbatim>\<open>pending_admin\<close> and keeps the admin; \<^verbatim>\<open>propose_admin\<close> of an address other than the
  admin by the admin, which sets \<^verbatim>\<open>pending_admin\<close> to it and keeps the admin; or a call of
  another entrypoint, which changes neither. Each of the three succeeds exactly when no
  tez is attached and its condition on the caller holds, with exactly that effect on
  the storage; so \<^verbatim>\<open>accept_admin\<close> by anyone but the proposed address aborts. \<^verbatim>\<open>propose_admin\<close>
  does not require that nothing is pending: it also overwrites an earlier proposal.
\<close>

theorem admin_handover_steps:
  "(\<forall>s' ops. exec c cl s = Inr (s', ops) \<longrightarrow>
      (cl = Accept_admin \<and> pending_admin s = Some (sp_sender c) \<and>
         admin s' = sp_sender c \<and> pending_admin s' = None) \<or>
      (cl = Cancel_admin_change \<and> sp_sender c = admin s \<and>
         admin s' = admin s \<and> pending_admin s' = None) \<or>
      (\<exists>x. cl = Propose_admin x \<and> sp_sender c = admin s \<and> x \<noteq> admin s \<and>
         admin s' = admin s \<and> pending_admin s' = Some x) \<or>
      (cl \<noteq> Accept_admin \<and> cl \<noteq> Cancel_admin_change \<and> (\<forall>x. cl \<noteq> Propose_admin x) \<and>
         admin s' = admin s \<and> pending_admin s' = pending_admin s)) \<and>
   accept_admin c s =
     (if sp_amount c = 0 \<and> pending_admin s = Some (sp_sender c)
      then Inr (s\<lparr>admin := sp_sender c, pending_admin := None\<rparr>,
                [Emit ''AdminChanged'' [(''old_admin'', V_address (admin s)),
                                        (''new_admin'', V_address (sp_sender c))]])
      else Inl (Failwith (if sp_amount c \<noteq> 0 then ''ADMIN: No tez expected''
                          else if pending_admin s = None then ''ADMIN: No pending''
                          else ''ADMIN: Not proposed admin''))) \<and>
   cancel_admin_change c s =
     (if sp_amount c = 0 \<and> sp_sender c = admin s
      then Inr (s\<lparr>pending_admin := None\<rparr>,
                [Emit ''AdminChangeCancelled'' [(''cancelled'', V_bool True)]])
      else Inl (Failwith (if sp_amount c \<noteq> 0 then ''ADMIN: No tez expected''
                          else ''ADMIN: Not admin''))) \<and>
   propose_admin c y s =
     (if sp_amount c = 0 \<and> sp_sender c = admin s \<and> y \<noteq> admin s
      then Inr (s\<lparr>pending_admin := Some y\<rparr>,
                [Emit ''AdminProposed'' [(''proposed'', V_address y)]])
      else Inl (Failwith (if sp_amount c \<noteq> 0 then ''ADMIN: No tez expected''
                          else if sp_sender c \<noteq> admin s then ''ADMIN: Not admin''
                          else ''ADMIN: Same admin''))) \<and>
   (pending_admin s \<noteq> Some (sp_sender c) \<longrightarrow> (\<exists>e. accept_admin c s = Inl e))"
proof (intro conjI allI impI)
  fix s' ops
  assume "exec c cl s = Inr (s', ops)"
  then show "(cl = Accept_admin \<and> pending_admin s = Some (sp_sender c) \<and>
         admin s' = sp_sender c \<and> pending_admin s' = None) \<or>
      (cl = Cancel_admin_change \<and> sp_sender c = admin s \<and>
         admin s' = admin s \<and> pending_admin s' = None) \<or>
      (\<exists>x. cl = Propose_admin x \<and> sp_sender c = admin s \<and> x \<noteq> admin s \<and>
         admin s' = admin s \<and> pending_admin s' = Some x) \<or>
      (cl \<noteq> Accept_admin \<and> cl \<noteq> Cancel_admin_change \<and> (\<forall>x. cl \<noteq> Propose_admin x) \<and>
         admin s' = admin s \<and> pending_admin s' = pending_admin s)"
    by (rule exec_admin_step)
next
  show "accept_admin c s =
     (if sp_amount c = 0 \<and> pending_admin s = Some (sp_sender c)
      then Inr (s\<lparr>admin := sp_sender c, pending_admin := None\<rparr>,
                [Emit ''AdminChanged'' [(''old_admin'', V_address (admin s)),
                                        (''new_admin'', V_address (sp_sender c))]])
      else Inl (Failwith (if sp_amount c \<noteq> 0 then ''ADMIN: No tez expected''
                          else if pending_admin s = None then ''ADMIN: No pending''
                          else ''ADMIN: Not proposed admin'')))"
    by (auto simp: accept_admin_def Let_def split: option.splits)
next
  show "cancel_admin_change c s =
     (if sp_amount c = 0 \<and> sp_sender c = admin s
      then Inr (s\<lparr>pending_admin := None\<rparr>,
                [Emit ''AdminChangeCancelled'' [(''cancelled'', V_bool True)]])
      else Inl (Failwith (if sp_amount c \<noteq> 0 then ''ADMIN: No tez expected''
                          else ''ADMIN: Not admin'')))"
    by (simp add: cancel_admin_change_def)
next
  show "propose_admin c y s =
     (if sp_amount c = 0 \<and> sp_sender c = admin s \<and> y \<noteq> admin s
      then Inr (s\<lparr>pending_admin := Some y\<rparr>,
                [Emit ''AdminProposed'' [(''proposed'', V_address y)]])
      else Inl (Failwith (if sp_amount c \<noteq> 0 then ''ADMIN: No tez expected''
                          else if sp_sender c \<noteq> admin s then ''ADMIN: Not admin''
                          else ''ADMIN: Same admin'')))"
    by (simp add: propose_admin_def)
next
  assume "pending_admin s \<noteq> Some (sp_sender c)"
  then show "\<exists>e. accept_admin c s = Inl e"
    by (auto simp: accept_admin_def split: option.splits)
qed

theorem admin_handover_steps_witness:
  "exec \<lparr>sp_sender = ''bob'', sp_amount = 0, sp_now = 1\<rparr> Accept_admin after_propose =
     Inr (after_propose\<lparr>admin := ''bob'', pending_admin := None\<rparr>,
          [Emit ''AdminChanged'' [(''old_admin'', V_address ''admin''),
                                  (''new_admin'', V_address ''bob'')]]) \<and>
   accept_admin \<lparr>sp_sender = ''alice'', sp_amount = 0, sp_now = 1\<rparr> after_propose =
     Inl (Failwith ''ADMIN: Not proposed admin'') \<and>
   exec \<lparr>sp_sender = ''admin'', sp_amount = 0, sp_now = 1\<rparr> Cancel_admin_change after_propose =
     Inr (after_propose\<lparr>pending_admin := None\<rparr>,
          [Emit ''AdminChangeCancelled'' [(''cancelled'', V_bool True)]]) \<and>
   exec \<lparr>sp_sender = ''admin'', sp_amount = 0, sp_now = 1\<rparr> (Propose_admin ''carol'') after_propose =
     Inr (after_propose\<lparr>pending_admin := Some ''carol''\<rparr>,
          [Emit ''AdminProposed'' [(''proposed'', V_address ''carol'')]])"
  using admin_handover_steps
    [of "\<lparr>sp_sender = ''bob'', sp_amount = 0, sp_now = 1\<rparr>" Accept_admin after_propose "''carol''"]
    admin_handover_steps
    [of "\<lparr>sp_sender = ''alice'', sp_amount = 0, sp_now = 1\<rparr>" Accept_admin after_propose "''carol''"]
    admin_handover_steps
    [of "\<lparr>sp_sender = ''admin'', sp_amount = 0, sp_now = 1\<rparr>" Cancel_admin_change after_propose
        "''carol''"]
  by (simp add: after_propose_def initial_storage_def)

end
